theory Spec2Isabelle
  imports Complex_Main
begin

section \<open>Shared vocabulary: thrown values, settled promises, HTTP outcomes\<close>

text \<open>
  The sources are asynchronous TypeScript. A thrown value is either an \<open>Error\<close> instance
  with its message or some other value (\<open>undefined\<close> included); the source tests
  \<open>error instanceof Error\<close> before it reads the message. A settled promise is a sum:
  \<open>Inl\<close> the rejection, \<open>Inr\<close> the fulfilment value.
\<close>

datatype thrown = JsError (message: string) | NonError

type_synonym 'a promise = "thrown + 'a"

text \<open>
  \<open>fetch\<close> either rejects (network failure, aborted request) or resolves with a response
  that carries \<open>ok\<close>, \<open>status\<close> and \<open>statusText\<close>.
\<close>

datatype http_result = Rejected thrown | Response (ok: bool) (status: string) (statusText: string)

text \<open>\<open>String.prototype.includes\<close> on byte strings.\<close>

fun startsWith :: "string \<Rightarrow> string \<Rightarrow> bool" where
  "startsWith s [] = True"
| "startsWith [] (c # cs) = False"
| "startsWith (x # xs) (c # cs) = (x = c \<and> startsWith xs cs)"

fun str_includes :: "string \<Rightarrow> string \<Rightarrow> bool" where
  "str_includes [] sub = (sub = [])"
| "str_includes (x # xs) sub = (startsWith (x # xs) sub \<or> str_includes xs sub)"

text \<open>
  The environment-teardown test that every catch block of the sources repeats:
  \<open>error instanceof Error && (error.message.includes('CancellationTokenSource') ||
  error.message.includes('disposed'))\<close>.
\<close>

fun isCancellation :: "thrown \<Rightarrow> bool" where
  "isCancellation (JsError m) =
     (str_includes m ''CancellationTokenSource'' \<or> str_includes m ''disposed'')"
| "isCancellation NonError = False"

section \<open>robust-diamond-persistence: retry with exponential backoff\<close>

definition MAX_RETRY_ATTEMPTS :: nat where
  "MAX_RETRY_ATTEMPTS = 3"

definition RETRY_DELAY_MS :: nat where
  "RETRY_DELAY_MS = 1000"

definition RETRY_BACKOFF_MULTIPLIER :: nat where
  "RETRY_BACKOFF_MULTIPLIER = 2"

text \<open>
  What \<open>retryWithBackoff\<close> does that a caller can observe besides its result: it invokes
  the operation (attempt number recorded) and it sleeps on a timer (milliseconds recorded).
\<close>

datatype retry_event = Invoked nat | Waited nat

text \<open>
  The \<open>for (attempt = 1; attempt <= maxAttempts; attempt++)\<close> loop. The operation is a
  thunk whose outcome may differ from call to call, so it is given as the outcome of the
  call made at each attempt. \<open>lastError\<close> is threaded as in the source; the
  \<open>throw lastError!\<close> after the loop is reached only when the loop body never ran, and
  then throws \<open>undefined\<close>.
\<close>

function retry_loop ::
  "(nat \<Rightarrow> 'a promise) \<Rightarrow> nat \<Rightarrow> nat \<Rightarrow> nat \<Rightarrow> thrown option \<Rightarrow> retry_event list
     \<Rightarrow> 'a promise \<times> retry_event list" where
  "retry_loop operation maxAttempts baseDelay attempt lastError evs =
     (if attempt \<le> maxAttempts then
        (case operation attempt of
           Inr v \<Rightarrow> (Inr v, evs @ [Invoked attempt])
         | Inl err \<Rightarrow>
             if isCancellation err then (Inl err, evs @ [Invoked attempt])
             else if attempt = maxAttempts then (Inl err, evs @ [Invoked attempt])
             else retry_loop operation maxAttempts baseDelay (attempt + 1) (Some err)
                    (evs @ [Invoked attempt,
                            Waited (baseDelay * RETRY_BACKOFF_MULTIPLIER ^ (attempt - 1))]))
      else (Inl (case lastError of Some e \<Rightarrow> e | None \<Rightarrow> NonError), evs))"
  by pat_completeness auto
termination
  by (relation "measure (\<lambda>(operation, maxAttempts, baseDelay, attempt, lastError, evs).
                   Suc maxAttempts - attempt)") auto

declare retry_loop.simps [simp del]

definition retryWithBackoff ::
  "(nat \<Rightarrow> 'a promise) \<Rightarrow> nat \<Rightarrow> nat \<Rightarrow> 'a promise \<times> retry_event list" where
  "retryWithBackoff operation maxAttempts baseDelay =
     retry_loop operation maxAttempts baseDelay 1 None []"

text \<open>The call with both optional parameters left out.\<close>

definition retryWithBackoff_default :: "(nat \<Rightarrow> 'a promise) \<Rightarrow> 'a promise \<times> retry_event list" where
  "retryWithBackoff_default operation =
     retryWithBackoff operation MAX_RETRY_ATTEMPTS RETRY_DELAY_MS"

text \<open>
  The trace of a run that makes exactly \<open>m\<close> attempts under the backoff rule of the
  specification: before attempt \<open>k + 1\<close> a delay of \<open>1000 * 2 ^ (k - 1)\<close> ms, and nothing
  after the last attempt.
\<close>

definition backoff_trace :: "nat \<Rightarrow> retry_event list" where
  "backoff_trace m =
     concat (map (\<lambda>k. [Invoked k, Waited (1000 * 2 ^ (k - 1))]) [1..<m]) @ [Invoked m]"

definition fails_retryably :: "'a promise \<Rightarrow> bool" where
  "fails_retryably p = (case p of Inl e \<Rightarrow> \<not> isCancellation e | Inr v \<Rightarrow> False)"

fun invocations :: "retry_event list \<Rightarrow> nat list" where
  "invocations [] = []"
| "invocations (Invoked k # evs) = k # invocations evs"
| "invocations (Waited d # evs) = invocations evs"

section \<open>robust-diamond-persistence: documents, module variables, remote store\<close>

type_synonym address = string

text \<open>
  \<open>DiamondBackup\<close>, and the JSON document found at the three remote paths
  \<open>/players/{address}/diamondCount\<close>, \<open>/diamondBackups/{address}\<close> and
  \<open>/globalDiamondBackup/{address}\<close>. The readers see untyped JSON and use only
  \<open>diamonds\<close> and \<open>timestamp\<close>; the optional fields are the ones that only some of
  the writers set (\<open>name\<close>, \<open>source\<close>, the embedded \<open>backups\<close>).
\<close>

record DiamondBackup =
  bk_diamonds :: int
  bk_timestamp :: int
  bk_version :: int
  bk_source :: string

record diamond_doc =
  doc_name :: "string option"
  doc_diamonds :: int
  doc_timestamp :: int
  doc_version :: int
  doc_source :: "string option"
  doc_backups :: "(string \<times> DiamondBackup) list"

record LocalDiamondData =
  loc_address :: address
  loc_name :: string
  loc_diamonds :: int
  loc_timestamp :: int
  loc_version :: int

record FailedSave =
  fs_address :: address
  fs_name :: string
  fs_diamonds :: int
  fs_attempts :: nat
  fs_lastAttempt :: int

record SaveMetrics =
  totalAttempts :: nat
  successfulSaves :: nat
  failedSaves :: nat
  retryAttempts :: nat
  localBackupsUsed :: nat
  lastSaveTime :: int

text \<open>
  The module-level variables (\<open>writeMutex\<close>, \<open>failedSavesQueue\<close>,
  \<open>isProcessingQueue\<close>, \<open>localDiamondStorage\<close>, \<open>saveMetrics\<close>) together with the
  three remote locations of the backend. A request that the backend answers with
  \<open>ok\<close> has been applied to the store; a rejected or refused request has not.
\<close>

record world =
  writeMutex :: bool
  failedSavesQueue :: "FailedSave list"
  isProcessingQueue :: bool
  localDiamondStorage :: "address \<rightharpoonup> LocalDiamondData"
  saveMetrics :: SaveMetrics
  players_diamondCount :: "address \<rightharpoonup> diamond_doc"
  diamondBackups :: "address \<rightharpoonup> diamond_doc"
  globalDiamondBackup :: "address \<rightharpoonup> diamond_doc"

definition MAX_BACKUPS_PER_PLAYER :: nat where
  "MAX_BACKUPS_PER_PLAYER = 3"

text \<open>
  What the network and the clock do during one call of \<open>savePlayerDiamondsRobust\<close>:
  the clock read in the synchronous prefix and the clock read after the awaits, the
  outcome of the primary PUT at each attempt of its retry ladder, the outcomes of the
  backup PUT and of the global PATCH, and the outcomes of the three GETs and of the DELETEs
  of \<open>limitPlayerBackups\<close>.
\<close>

record save_net =
  now_start :: int
  now_end :: int
  primary_put :: "nat \<Rightarrow> http_result"
  backup_put :: http_result
  global_patch :: http_result
  limit_primary_get :: http_result
  limit_backup_get :: http_result
  limit_global_get :: http_result
  limit_delete :: http_result

subsection \<open>The write mutex\<close>

text \<open>
  \<open>acquireWriteMutex\<close> has no await in its body, so the flag is tested and set within
  the caller's synchronous prefix. The 10 s timer that force-releases the flag is real time
  and is left out.
\<close>

definition acquireWriteMutex :: "world \<Rightarrow> bool \<times> world" where
  "acquireWriteMutex w =
     (if writeMutex w then (False, w) else (True, w\<lparr>writeMutex := True\<rparr>))"

definition releaseWriteMutex :: "world \<Rightarrow> world" where
  "releaseWriteMutex w = w\<lparr>writeMutex := False\<rparr>"

subsection \<open>The three remote writers\<close>

definition primary_data :: "string \<Rightarrow> int \<Rightarrow> int \<Rightarrow> diamond_doc" where
  "primary_data name diamonds now =
     \<lparr>doc_name = Some name, doc_diamonds = diamonds, doc_timestamp = now, doc_version = 2,
      doc_source = None,
      doc_backups =
        [(''backup1'', \<lparr>bk_diamonds = diamonds, bk_timestamp = now, bk_version = 2,
                        bk_source = ''backup1''\<rparr>),
         (''backup2'', \<lparr>bk_diamonds = diamonds, bk_timestamp = now, bk_version = 2,
                        bk_source = ''backup2''\<rparr>)]\<rparr>"

definition backup_data :: "int \<Rightarrow> int \<Rightarrow> diamond_doc" where
  "backup_data diamonds now =
     \<lparr>doc_name = None, doc_diamonds = diamonds, doc_timestamp = now, doc_version = 2,
      doc_source = Some ''backup1'', doc_backups = []\<rparr>"

definition global_data :: "string \<Rightarrow> int \<Rightarrow> int \<Rightarrow> diamond_doc" where
  "global_data name diamonds now =
     \<lparr>doc_name = Some name, doc_diamonds = diamonds, doc_timestamp = now, doc_version = 2,
      doc_source = None, doc_backups = []\<rparr>"

text \<open>
  The thunk handed to \<open>retryWithBackoff\<close> by \<open>savePlayerDiamondsPrimary\<close>: one PUT, and
  \<open>throw new Error(`HTTP ${resp.status}: ${resp.statusText}`)\<close> when the response is not ok.
\<close>

definition primary_operation :: "save_net \<Rightarrow> nat \<Rightarrow> unit promise" where
  "primary_operation net attempt =
     (case primary_put net attempt of
        Rejected e \<Rightarrow> Inl e
      | Response okay st txt \<Rightarrow>
          if \<not> okay then Inl (JsError (''HTTP '' @ st @ '': '' @ txt)) else Inr ())"

text \<open>
  \<open>savePlayerDiamondsPrimary\<close> after its \<open>await acquireWriteMutex()\<close>: without the mutex it
  returns false before the \<open>try\<close> (so the \<open>finally\<close> does not run); with it, the PUT goes
  through the retry ladder, both catch branches return false, and the \<open>finally\<close> releases
  the mutex.
\<close>

definition savePlayerDiamondsPrimary_resume ::
  "save_net \<Rightarrow> address \<Rightarrow> string \<Rightarrow> int \<Rightarrow> bool \<Rightarrow> world \<Rightarrow> bool promise \<times> world" where
  "savePlayerDiamondsPrimary_resume net address name diamonds mutexAcquired w =
     (if \<not> mutexAcquired then (Inr False, w)
      else
        (case fst (retryWithBackoff_default (primary_operation net)) of
           Inr u \<Rightarrow>
             (Inr True,
              releaseWriteMutex
                (w\<lparr>players_diamondCount :=
                      (players_diamondCount w)
                        (address \<mapsto> primary_data name diamonds (now_start net))\<rparr>))
         | Inl e \<Rightarrow>
             if isCancellation e then (Inr False, releaseWriteMutex w)
             else (Inr False, releaseWriteMutex w)))"

definition savePlayerDiamondsPrimary ::
  "save_net \<Rightarrow> address \<Rightarrow> string \<Rightarrow> int \<Rightarrow> world \<Rightarrow> bool promise \<times> world" where
  "savePlayerDiamondsPrimary net address name diamonds w =
     (case acquireWriteMutex w of
        (mutexAcquired, w') \<Rightarrow>
          savePlayerDiamondsPrimary_resume net address name diamonds mutexAcquired w')"

definition savePlayerDiamondsBackup ::
  "save_net \<Rightarrow> address \<Rightarrow> string \<Rightarrow> int \<Rightarrow> world \<Rightarrow> bool promise \<times> world" where
  "savePlayerDiamondsBackup net address name diamonds w =
     (case backup_put net of
        Rejected e \<Rightarrow> if isCancellation e then (Inr False, w) else (Inr False, w)
      | Response okay st txt \<Rightarrow>
          if \<not> okay then (Inr False, w)
          else (Inr True,
                w\<lparr>diamondBackups :=
                     (diamondBackups w)(address \<mapsto> backup_data diamonds (now_start net))\<rparr>))"

text \<open>
  The global index is written with PATCH and a body \<open>{[address]: {...}}\<close>: only the entry
  of this address is replaced.
\<close>

definition saveGlobalDiamondBackup ::
  "save_net \<Rightarrow> address \<Rightarrow> string \<Rightarrow> int \<Rightarrow> world \<Rightarrow> bool promise \<times> world" where
  "saveGlobalDiamondBackup net address name diamonds w =
     (case global_patch net of
        Rejected e \<Rightarrow> if isCancellation e then (Inr False, w) else (Inr False, w)
      | Response okay st txt \<Rightarrow>
          if \<not> okay then (Inr False, w)
          else (Inr True,
                w\<lparr>globalDiamondBackup :=
                     (globalDiamondBackup w)
                       (address \<mapsto> global_data name diamonds (now_start net))\<rparr>))"

subsection \<open>The local fallback cache\<close>

definition savePlayerDiamondsLocally :: "int \<Rightarrow> address \<Rightarrow> string \<Rightarrow> int \<Rightarrow> world \<Rightarrow> world" where
  "savePlayerDiamondsLocally now address name diamonds w =
     w\<lparr>localDiamondStorage :=
          (localDiamondStorage w)
            (address \<mapsto> \<lparr>loc_address = address, loc_name = name, loc_diamonds = diamonds,
                          loc_timestamp = now, loc_version = 2\<rparr>),
        saveMetrics :=
          (saveMetrics w)\<lparr>localBackupsUsed := localBackupsUsed (saveMetrics w) + 1\<rparr>\<rparr>"

definition loadPlayerDiamondsLocally :: "address \<Rightarrow> world \<Rightarrow> int" where
  "loadPlayerDiamondsLocally address w =
     (case localDiamondStorage w address of
        Some localData \<Rightarrow> loc_diamonds localData
      | None \<Rightarrow> 0)"

subsection \<open>limitPlayerBackups\<close>

record backup_entry =
  be_source :: string
  be_data :: diamond_doc
  be_timestamp :: int

text \<open>
  One of the three \<open>if (resp.status === 'fulfilled' && resp.value.ok)\<close> blocks: the entry
  pushed for a source, if any. For a numeric timestamp \<open>data.timestamp || 0\<close> is the
  timestamp itself.
\<close>

definition collect_backup :: "string \<Rightarrow> http_result \<Rightarrow> diamond_doc option \<Rightarrow> backup_entry list" where
  "collect_backup src resp content =
     (case resp of
        Rejected e \<Rightarrow> []
      | Response okay st txt \<Rightarrow>
          if okay then
            (case content of
               Some data \<Rightarrow> [\<lparr>be_source = src, be_data = data, be_timestamp = doc_timestamp data\<rparr>]
             | None \<Rightarrow> [])
          else [])"

text \<open>The \<open>for (const backup of toDelete)\<close> loop; a rejected DELETE throws out of it.\<close>

fun delete_old_backups ::
  "http_result \<Rightarrow> address \<Rightarrow> backup_entry list \<Rightarrow> world \<Rightarrow> unit promise \<times> world" where
  "delete_old_backups del address [] w = (Inr (), w)"
| "delete_old_backups del address (backup # rest) w =
     (if be_source backup = ''backup'' then
        (case del of
           Rejected e \<Rightarrow> (Inl e, w)
         | Response okay st txt \<Rightarrow>
             delete_old_backups del address rest
               (if okay then w\<lparr>diamondBackups := (diamondBackups w)(address := None)\<rparr> else w))
      else if be_source backup = ''global'' then
        (case del of
           Rejected e \<Rightarrow> (Inl e, w)
         | Response okay st txt \<Rightarrow>
             delete_old_backups del address rest
               (if okay then w\<lparr>globalDiamondBackup := (globalDiamondBackup w)(address := None)\<rparr>
                else w))
      else delete_old_backups del address rest w)"

text \<open>
  The whole body sits in \<open>try { ... } catch (error) { console.error(...) }\<close>, so the promise
  of \<open>limitPlayerBackups\<close> is fulfilled whatever happens inside. The sort is
  \<open>backups.sort((a, b) => b.timestamp - a.timestamp)\<close>: newest first, stable.
\<close>

definition limitPlayerBackups :: "save_net \<Rightarrow> address \<Rightarrow> world \<Rightarrow> unit promise \<times> world" where
  "limitPlayerBackups net address w =
     (let backups =
            collect_backup ''primary'' (limit_primary_get net) (players_diamondCount w address)
            @ collect_backup ''backup'' (limit_backup_get net) (diamondBackups w address)
            @ collect_backup ''global'' (limit_global_get net) (globalDiamondBackup w address);
          sorted = sort_key (\<lambda>b. - be_timestamp b) backups
      in if length sorted > MAX_BACKUPS_PER_PLAYER then
           (case delete_old_backups (limit_delete net) address
                   (drop MAX_BACKUPS_PER_PLAYER sorted) w of
              (Inl e, w') \<Rightarrow> (Inr (), w')
            | (Inr u, w') \<Rightarrow> (Inr (), w'))
         else (Inr (), w))"

subsection \<open>savePlayerDiamondsRobust\<close>

text \<open>
  The call runs synchronously up to its first await: the two metric updates, the mutex test
  of \<open>savePlayerDiamondsPrimary\<close>, and the issuing of the backup and global requests. It is
  then suspended until the remote writes have settled, and other calls may run in between.
  The model therefore splits it in two: \<open>savePlayerDiamondsRobust_begin\<close> is the
  synchronous prefix and returns whether the mutex was obtained;
  \<open>savePlayerDiamondsRobust_resume\<close> is everything after the suspension, with the remote
  writes of this call landing at that moment. \<open>savePlayerDiamondsRobust\<close> is the two run
  back to back, that is, a call during which nothing else is scheduled.

  The result carries, besides the settled promise, whether the un-awaited
  \<open>processFailedSavesQueue()\<close> was started (\<open>if (!isProcessingQueue)\<close>); that background
  task is a step of its own, below.
\<close>

definition savePlayerDiamondsRobust_begin :: "save_net \<Rightarrow> world \<Rightarrow> bool \<times> world" where
  "savePlayerDiamondsRobust_begin net w =
     acquireWriteMutex
       (w\<lparr>saveMetrics :=
            (saveMetrics w)\<lparr>totalAttempts := totalAttempts (saveMetrics w) + 1,
                             lastSaveTime := now_start net\<rparr>\<rparr>)"

definition count_success :: "world \<Rightarrow> nat \<Rightarrow> world" where
  "count_success w successCount =
     (if successCount > 0
      then w\<lparr>saveMetrics := (saveMetrics w)\<lparr>successfulSaves := successfulSaves (saveMetrics w) + 1\<rparr>\<rparr>
      else w\<lparr>saveMetrics := (saveMetrics w)\<lparr>failedSaves := failedSaves (saveMetrics w) + 1\<rparr>\<rparr>)"

definition savePlayerDiamondsRobust_resume ::
  "save_net \<Rightarrow> address \<Rightarrow> string \<Rightarrow> int \<Rightarrow> bool \<Rightarrow> world \<Rightarrow> (bool promise \<times> bool) \<times> world" where
  "savePlayerDiamondsRobust_resume net address name diamonds mutexAcquired w =
     (case savePlayerDiamondsPrimary_resume net address name diamonds mutexAcquired w of
        (r1, w1) \<Rightarrow>
     (case savePlayerDiamondsBackup net address name diamonds w1 of
        (r2, w2) \<Rightarrow>
     (case saveGlobalDiamondBackup net address name diamonds w2 of
        (r3, w3) \<Rightarrow>
       (let results = [r1, r2, r3];
            successCount = length (filter (\<lambda>r. r = Inr True) results);
            w4 = count_success w3 successCount
        in case limitPlayerBackups net address w4 of
             (Inl e, w5) \<Rightarrow> ((Inl e, False), w5)
           | (Inr u, w5) \<Rightarrow>
               (let w6 = savePlayerDiamondsLocally (now_end net) address name diamonds w5
                in if successCount = 0 then
                     (let failedSave =
                            \<lparr>fs_address = address, fs_name = name, fs_diamonds = diamonds,
                             fs_attempts = 0, fs_lastAttempt = now_end net\<rparr>;
                          w7 = w6\<lparr>failedSavesQueue := failedSavesQueue w6 @ [failedSave]\<rparr>
                      in ((Inr True, \<not> isProcessingQueue w7), w7))
                   else ((Inr True, False), w6))))))"

definition savePlayerDiamondsRobust ::
  "save_net \<Rightarrow> address \<Rightarrow> string \<Rightarrow> int \<Rightarrow> world \<Rightarrow> (bool promise \<times> bool) \<times> world" where
  "savePlayerDiamondsRobust net address name diamonds w =
     (case savePlayerDiamondsRobust_begin net w of
        (mutexAcquired, w') \<Rightarrow>
          savePlayerDiamondsRobust_resume net address name diamonds mutexAcquired w')"

subsection \<open>processFailedSavesQueue\<close>

definition retryDelay :: int where
  "retryDelay = 5000"

text \<open>
  One pass of the drain needs the clock read at its start and, for the re-attempt made for
  the entry at each queue index, the network of that \<open>savePlayerDiamondsRobust\<close> call.
\<close>

record queue_net =
  q_now :: int
  q_saves :: "nat \<Rightarrow> save_net"

definition splice1 :: "nat \<Rightarrow> 'a list \<Rightarrow> 'a list" where
  "splice1 i xs = take i xs @ drop (Suc i) xs"

text \<open>
  The loop \<open>for (i = failedSavesQueue.length - 1; i >= 0; i--)\<close>; the numeric argument is
  \<open>i + 1\<close>. \<open>failedSave\<close> is the queue's own object, so the two assignments update the
  queue in place. While the pass runs \<open>isProcessingQueue\<close> is true, so the nested
  \<open>savePlayerDiamondsRobust\<close> starts no second drain. A read beyond the end of the array
  would be \<open>undefined\<close>, and the field access on it a \<open>TypeError\<close>.
\<close>

fun process_entries :: "queue_net \<Rightarrow> nat \<Rightarrow> world \<Rightarrow> unit promise \<times> world" where
  "process_entries qn 0 w = (Inr (), w)"
| "process_entries qn (Suc i) w =
     (if i < length (failedSavesQueue w) then
        (let failedSave = failedSavesQueue w ! i in
         if q_now qn - fs_lastAttempt failedSave < retryDelay then process_entries qn i w
         else
           (let failedSave' = failedSave\<lparr>fs_attempts := fs_attempts failedSave + 1,
                                          fs_lastAttempt := q_now qn\<rparr>;
                w1 = w\<lparr>failedSavesQueue := (failedSavesQueue w)[i := failedSave'],
                       saveMetrics :=
                         (saveMetrics w)\<lparr>retryAttempts := retryAttempts (saveMetrics w) + 1\<rparr>\<rparr>
            in case savePlayerDiamondsRobust (q_saves qn i) (fs_address failedSave')
                      (fs_name failedSave') (fs_diamonds failedSave') w1 of
                 ((Inl e, started), w2) \<Rightarrow> (Inl e, w2)
               | ((Inr success, started), w2) \<Rightarrow>
                   if success then
                     process_entries qn i
                       (w2\<lparr>failedSavesQueue := splice1 i (failedSavesQueue w2)\<rparr>)
                   else if fs_attempts failedSave' \<ge> MAX_RETRY_ATTEMPTS then
                     process_entries qn i
                       (w2\<lparr>failedSavesQueue := splice1 i (failedSavesQueue w2)\<rparr>)
                   else process_entries qn i w2))
      else (Inl (JsError ''TypeError: Cannot read properties of undefined''), w))"

text \<open>
  The result carries whether the next pass was scheduled
  (\<open>setTimeout(() => processFailedSavesQueue(), retryDelay)\<close> when entries remain).
\<close>

definition processFailedSavesQueue :: "queue_net \<Rightarrow> world \<Rightarrow> (unit promise \<times> bool) \<times> world" where
  "processFailedSavesQueue qn w =
     (if isProcessingQueue w \<or> length (failedSavesQueue w) = 0 then ((Inr (), False), w)
      else
        (case process_entries qn (length (failedSavesQueue w)) (w\<lparr>isProcessingQueue := True\<rparr>) of
           (Inl e, w') \<Rightarrow> ((Inl e, False), w')
         | (Inr u, w') \<Rightarrow>
             (let w'' = w'\<lparr>isProcessingQueue := False\<rparr>
              in ((Inr (), length (failedSavesQueue w'') > 0), w''))))"

subsection \<open>loadPlayerDiamondsRobust, recoverPlayerDiamonds, verifyDiamondIntegrity\<close>

record read_net =
  primary_get :: http_result
  backup_get :: http_result
  global_get :: http_result

text \<open>\<open>fetch(url).then(r => r.ok ? r.json() : null)\<close>, the body being the stored document.\<close>

definition fetch_json :: "http_result \<Rightarrow> 'a option \<Rightarrow> 'a option promise" where
  "fetch_json resp content =
     (case resp of
        Rejected e \<Rightarrow> Inl e
      | Response okay st txt \<Rightarrow> if okay then Inr content else Inr None)"

text \<open>
  The \<open>forEach\<close> callback: what one settled source appends to \<open>diamonds\<close>. The three
  \<open>switch\<close> cases read the count the same way; for a number \<open>data.diamonds || 0\<close> is the
  number itself.
\<close>

definition analyse_source :: "diamond_doc option promise \<Rightarrow> int list" where
  "analyse_source result =
     (case result of
        Inl e \<Rightarrow> []
      | Inr None \<Rightarrow> []
      | Inr (Some data) \<Rightarrow>
          (let diamondCount = doc_diamonds data
           in if diamondCount > 0 then [diamondCount] else []))"

definition loadPlayerDiamondsRobust :: "read_net \<Rightarrow> address \<Rightarrow> world \<Rightarrow> int" where
  "loadPlayerDiamondsRobust rn address w =
     (let sources =
            [fetch_json (primary_get rn) (players_diamondCount w address),
             fetch_json (backup_get rn) (diamondBackups w address),
             fetch_json (global_get rn) (globalDiamondBackup w address)];
          diamonds = concat (map analyse_source sources);
          localDiamonds = loadPlayerDiamondsLocally address w;
          diamonds' = (if localDiamonds > 0 then diamonds @ [localDiamonds] else diamonds)
      in case diamonds' of
           [] \<Rightarrow> 0
         | d # ds \<Rightarrow> foldl max d ds)"

definition recoverPlayerDiamonds ::
  "read_net \<Rightarrow> save_net \<Rightarrow> address \<Rightarrow> string \<Rightarrow> int \<Rightarrow> world \<Rightarrow> (int promise \<times> bool) \<times> world" where
  "recoverPlayerDiamonds rn net address name currentDiamonds w =
     (let recoveredDiamonds = loadPlayerDiamondsRobust rn address w
      in if recoveredDiamonds > currentDiamonds then
           (case savePlayerDiamondsRobust net address name recoveredDiamonds w of
              ((Inl e, started), w') \<Rightarrow> ((Inl e, started), w')
            | ((Inr b, started), w') \<Rightarrow> ((Inr recoveredDiamonds, started), w'))
         else ((Inr currentDiamonds, False), w))"

definition verifyDiamondIntegrity ::
  "read_net \<Rightarrow> save_net \<Rightarrow> address \<Rightarrow> string \<Rightarrow> int \<Rightarrow> world \<Rightarrow> (int promise \<times> bool) \<times> world" where
  "verifyDiamondIntegrity rn net address name currentDiamonds w =
     (let verifiedDiamonds = loadPlayerDiamondsRobust rn address w
      in if verifiedDiamonds \<noteq> currentDiamonds then
           (let correctedDiamonds = max currentDiamonds verifiedDiamonds
            in if correctedDiamonds > currentDiamonds then
                 (case savePlayerDiamondsRobust net address name correctedDiamonds w of
                    ((Inl e, started), w') \<Rightarrow> ((Inl e, started), w')
                  | ((Inr b, started), w') \<Rightarrow> ((Inr correctedDiamonds, started), w'))
               else ((Inr currentDiamonds, False), w))
         else ((Inr currentDiamonds, False), w))"

subsection \<open>Whether the backend accepted a request\<close>

definition accepted :: "http_result \<Rightarrow> bool" where
  "accepted resp = (case resp of Rejected e \<Rightarrow> False | Response okay st txt \<Rightarrow> okay)"

text \<open>The primary PUT is accepted when its retry ladder ends with a fulfilled attempt.\<close>

definition primary_accepted :: "save_net \<Rightarrow> bool" where
  "primary_accepted net =
     (case fst (retryWithBackoff_default (primary_operation net)) of
        Inl e \<Rightarrow> False
      | Inr u \<Rightarrow> True)"

text \<open>Whether any of the three remote writes of one call was accepted.\<close>

definition any_accepted :: "save_net \<Rightarrow> bool \<Rightarrow> bool" where
  "any_accepted net mutexAcquired =
     ((mutexAcquired \<and> primary_accepted net) \<or> accepted (backup_put net)
      \<or> accepted (global_patch net))"

subsection \<open>The reconciliation policy in the words of the specification\<close>

text \<open>
  The readings that were successfully obtained from the four sources (primary record,
  per-player backup, global backup index, local fallback cache), and the policy "maximum of
  the readings that count, zero when there is none". A reading counts when it is positive.
\<close>

definition remote_reading :: "http_result \<Rightarrow> diamond_doc option \<Rightarrow> int list" where
  "remote_reading resp content =
     (case resp of
        Rejected e \<Rightarrow> []
      | Response okay st txt \<Rightarrow>
          (case content of
             Some data \<Rightarrow> if okay then [doc_diamonds data] else []
           | None \<Rightarrow> []))"

definition source_readings :: "read_net \<Rightarrow> address \<Rightarrow> world \<Rightarrow> int list" where
  "source_readings rn address w =
     remote_reading (primary_get rn) (players_diamondCount w address)
     @ remote_reading (backup_get rn) (diamondBackups w address)
     @ remote_reading (global_get rn) (globalDiamondBackup w address)
     @ (case localDiamondStorage w address of
          Some localData \<Rightarrow> [loc_diamonds localData]
        | None \<Rightarrow> [])"

definition reconciled_spec :: "read_net \<Rightarrow> address \<Rightarrow> world \<Rightarrow> int" where
  "reconciled_spec rn address w =
     (let counted = filter (\<lambda>d. 0 < d) (source_readings rn address w)
      in if counted = [] then 0 else Max (set counted))"

subsection \<open>Scenarios: a fresh process, a healthy backend, an unreachable backend\<close>

definition empty_world :: world where
  "empty_world =
     \<lparr>writeMutex = False, failedSavesQueue = [], isProcessingQueue = False,
      localDiamondStorage = Map.empty,
      saveMetrics = \<lparr>totalAttempts = 0, successfulSaves = 0, failedSaves = 0,
                     retryAttempts = 0, localBackupsUsed = 0, lastSaveTime = 0\<rparr>,
      players_diamondCount = Map.empty, diamondBackups = Map.empty,
      globalDiamondBackup = Map.empty\<rparr>"

definition net_up :: "int \<Rightarrow> save_net" where
  "net_up t =
     \<lparr>now_start = t, now_end = t,
      primary_put = (\<lambda>attempt. Response True ''200'' ''OK''),
      backup_put = Response True ''200'' ''OK'',
      global_patch = Response True ''200'' ''OK'',
      limit_primary_get = Response True ''200'' ''OK'',
      limit_backup_get = Response True ''200'' ''OK'',
      limit_global_get = Response True ''200'' ''OK'',
      limit_delete = Response True ''200'' ''OK''\<rparr>"

definition net_down :: "int \<Rightarrow> save_net" where
  "net_down t =
     \<lparr>now_start = t, now_end = t,
      primary_put = (\<lambda>attempt. Rejected (JsError ''Failed to fetch'')),
      backup_put = Rejected (JsError ''Failed to fetch''),
      global_patch = Rejected (JsError ''Failed to fetch''),
      limit_primary_get = Rejected (JsError ''Failed to fetch''),
      limit_backup_get = Rejected (JsError ''Failed to fetch''),
      limit_global_get = Rejected (JsError ''Failed to fetch''),
      limit_delete = Rejected (JsError ''Failed to fetch'')\<rparr>"

definition reads_up :: read_net where
  "reads_up =
     \<lparr>primary_get = Response True ''200'' ''OK'', backup_get = Response True ''200'' ''OK'',
      global_get = Response True ''200'' ''OK''\<rparr>"

text \<open>
  Two writes to the counter of player \<open>p1\<close>, carrying 5 and 3, against a healthy backend:
  once one after the other, and once overlapping. In the overlapping schedule the write of 3
  starts first and takes the mutex, the write of 5 starts while the first is suspended (so
  its primary save is skipped), the requests of the second land and it completes, and then
  the requests of the first land and it completes.
\<close>

definition settled_sequential :: world where
  "settled_sequential =
     snd (savePlayerDiamondsRobust (net_up 2) ''p1'' ''Ann'' 3
            (snd (savePlayerDiamondsRobust (net_up 1) ''p1'' ''Ann'' 5 empty_world)))"

definition settled_overlapped :: world where
  "settled_overlapped =
     (case savePlayerDiamondsRobust_begin (net_up 1) empty_world of
        (m1, w1) \<Rightarrow>
     (case savePlayerDiamondsRobust_begin (net_up 2) w1 of
        (m2, w2) \<Rightarrow>
       snd (savePlayerDiamondsRobust_resume (net_up 1) ''p1'' ''Ann'' 3 m1
              (snd (savePlayerDiamondsRobust_resume (net_up 2) ''p1'' ''Ann'' 5 m2 w2)))))"

text \<open>
  A write of 7 for player \<open>p1\<close> at time 0 with the backend unreachable, which leaves one
  retry-queue entry; and drain passes at times 10000, 20000, ... with the backend still
  unreachable.
\<close>

definition world_after_failed_save :: world where
  "world_after_failed_save =
     snd (savePlayerDiamondsRobust (net_down 0) ''p1'' ''Ann'' 7 empty_world)"

definition drain_down :: "int \<Rightarrow> queue_net" where
  "drain_down t = \<lparr>q_now = t, q_saves = (\<lambda>i. net_down t)\<rparr>"

fun drain_passes :: "nat \<Rightarrow> world \<Rightarrow> world" where
  "drain_passes 0 w = w"
| "drain_passes (Suc k) w =
     snd (processFailedSavesQueue (drain_down (10000 * (int k + 1))) (drain_passes k w))"

text \<open>One write of 3 for player \<open>p1\<close> against a healthy backend: every source holds 3.\<close>

definition replicas_hold_3 :: world where
  "replicas_hold_3 = snd (savePlayerDiamondsRobust (net_up 1) ''p1'' ''Ann'' 3 empty_world)"

section \<open>ghost-positions-persistence: batch writer and leadership lease\<close>

definition BATCH_SIZE :: nat where
  "BATCH_SIZE = 50"

definition LEADER_TIMEOUT :: int where
  "LEADER_TIMEOUT = 30000"

record Vector3 =
  v_x :: real
  v_y :: real
  v_z :: real

record GhostPosition =
  gp_x :: real
  gp_y :: real
  gp_z :: real
  lastSaved :: int

text \<open>
  A PATCH body: the entries \<open>ghost_<i>\<close> of one batch in the order the loop writes them,
  each key given by its index \<open>i\<close>.
\<close>

type_synonym batch = "(nat \<times> GhostPosition) list"

record leader_token =
  leaderId :: int
  timestamp :: int

text \<open>The requests the module sends, in the order it sends them.\<close>

datatype request = GET_leader | PUT_leader leader_token | PATCH_positions batch

text \<open>
  The module variables, and the leadership token stored at \<open>/ghostSaveLeader\<close>. An
  accepted PUT replaces the stored token. The variable \<open>lastSaveTime\<close> of this module is
  \<open>positionsSavedAt\<close> here, the name being a field of \<open>SaveMetrics\<close> already.
\<close>

record ghost_world =
  ghostPositionsData :: "nat \<rightharpoonup> GhostPosition"
  positionsSavedAt :: int
  lastLeaderCheckTime :: int
  isInitialized :: bool
  isLeader :: bool
  ghostSaveLeader :: "leader_token option"

subsection \<open>saveGhostPositions\<close>

text \<open>
  The inner loop \<open>for (i = start; i < end; i++)\<close>. An array slot may hold no object
  (\<open>if (pos)\<close>), in which case no key is written for it.
\<close>

definition build_batch :: "int \<Rightarrow> Vector3 option list \<Rightarrow> nat \<Rightarrow> nat \<Rightarrow> batch" where
  "build_batch now positions start end' =
     concat (map (\<lambda>i. case positions ! i of
                          Some pos \<Rightarrow> [(i, \<lparr>gp_x = v_x pos, gp_y = v_y pos, gp_z = v_z pos,
                                            lastSaved = now\<rparr>)]
                        | None \<Rightarrow> [])
                 [start..<end'])"

text \<open>
  The outer loop \<open>for (batchIndex = 0; batchIndex < numBatches; batchIndex++)\<close>. The
  outcome of the PATCH of each batch is given by its index. A response that is not ok is
  logged and the loop continues; a rejected fetch throws out of the loop into the catch
  block of \<open>saveGhostPositions\<close>. \<open>savedCount\<close> is only logged and is left out.
\<close>

function save_batches ::
  "int \<Rightarrow> (nat \<Rightarrow> http_result) \<Rightarrow> Vector3 option list \<Rightarrow> nat \<Rightarrow> nat
     \<Rightarrow> ghost_world \<Rightarrow> request list \<Rightarrow> unit promise \<times> ghost_world \<times> request list" where
  "save_batches now patch positions numBatches batchIndex w sent =
     (if batchIndex < numBatches then
        (let start = batchIndex * BATCH_SIZE;
             end' = min (start + BATCH_SIZE) (length positions);
             batchData = build_batch now positions start end'
         in case patch batchIndex of
              Rejected e \<Rightarrow> (Inl e, w, sent @ [PATCH_positions batchData])
            | Response okay st txt \<Rightarrow>
                if \<not> okay then
                  save_batches now patch positions numBatches (batchIndex + 1) w
                    (sent @ [PATCH_positions batchData])
                else
                  save_batches now patch positions numBatches (batchIndex + 1)
                    (w\<lparr>ghostPositionsData := ghostPositionsData w ++ map_of batchData\<rparr>)
                    (sent @ [PATCH_positions batchData]))
      else (Inr (), w, sent))"
  by pat_completeness auto
termination
  by (relation "measure (\<lambda>(now, patch, positions, numBatches, batchIndex, w, sent).
                   numBatches - batchIndex)") auto

declare save_batches.simps [simp del]

text \<open>\<open>Math.ceil(positions.length / BATCH_SIZE)\<close>.\<close>

definition numBatches_of :: "Vector3 option list \<Rightarrow> nat" where
  "numBatches_of positions = nat \<lceil>real (length positions) / real BATCH_SIZE\<rceil>"

definition saveGhostPositions ::
  "int \<Rightarrow> (nat \<Rightarrow> http_result) \<Rightarrow> Vector3 option list \<Rightarrow> ghost_world
     \<Rightarrow> ghost_world \<times> request list" where
  "saveGhostPositions now patch positions w =
     (if \<not> isLeader w then (w, [])
      else
        (case save_batches now patch positions (numBatches_of positions) 0 w [] of
           (Inl e, w', sent) \<Rightarrow> (w', sent)
         | (Inr u, w', sent) \<Rightarrow> (w'\<lparr>positionsSavedAt := now\<rparr>, sent)))"

text \<open>The index sets of the PATCH bodies among a list of requests.\<close>

fun patch_keys :: "request list \<Rightarrow> nat list list" where
  "patch_keys [] = []"
| "patch_keys (PATCH_positions b # rs) = map fst b # patch_keys rs"
| "patch_keys (GET_leader # rs) = patch_keys rs"
| "patch_keys (PUT_leader t # rs) = patch_keys rs"

subsection \<open>becomeLeader and checkAndRenewLeadership\<close>

text \<open>
  What the network and the clock do during one \<open>becomeLeader\<close>: the outcome of the GET
  and of the PUT, and the four readings of \<open>Date.now()\<close> (for the age of the token, for
  the two fields of the fresh token, and for \<open>lastLeaderCheckTime\<close>).
\<close>

record leader_net =
  leader_get :: http_result
  leader_put :: http_result
  now_age :: int
  now_leaderId :: int
  now_timestamp :: int
  now_after :: int

text \<open>The part of \<open>becomeLeader\<close> from \<open>// Tenter de prendre le role de leader\<close> on.\<close>

definition take_over :: "leader_net \<Rightarrow> ghost_world \<Rightarrow> (bool \<times> request list) \<times> ghost_world" where
  "take_over lnet w =
     (let fresh = \<lparr>leaderId = now_leaderId lnet, timestamp = now_timestamp lnet\<rparr>
      in case leader_put lnet of
           Rejected e \<Rightarrow> ((False, [GET_leader, PUT_leader fresh]), w)
         | Response okay st txt \<Rightarrow>
             if \<not> okay then ((False, [GET_leader, PUT_leader fresh]), w)
             else ((True, [GET_leader, PUT_leader fresh]),
                   w\<lparr>ghostSaveLeader := Some fresh, isLeader := True,
                     lastLeaderCheckTime := now_after lnet\<rparr>))"

definition becomeLeader :: "leader_net \<Rightarrow> ghost_world \<Rightarrow> (bool \<times> request list) \<times> ghost_world" where
  "becomeLeader lnet w =
     (case fetch_json (leader_get lnet) (ghostSaveLeader w) of
        Inl e \<Rightarrow> ((False, [GET_leader]), w)
      | Inr None \<Rightarrow> take_over lnet w
      | Inr (Some currentLeader) \<Rightarrow>
          (let leaderAge = now_age lnet - timestamp currentLeader
           in if leaderAge < LEADER_TIMEOUT then ((False, [GET_leader]), w)
              else take_over lnet w))"

record renew_net =
  renew_now :: int
  renew_leaderId :: int
  renew_put :: http_result

text \<open>
  The response of the renewal PUT is not inspected, and a rejected fetch is caught and
  logged.
\<close>

definition checkAndRenewLeadership :: "renew_net \<Rightarrow> ghost_world \<Rightarrow> request list \<times> ghost_world" where
  "checkAndRenewLeadership rn w =
     (if \<not> isLeader w then ([], w)
      else if renew_now rn - lastLeaderCheckTime w > 5000 then
        (let w1 = w\<lparr>lastLeaderCheckTime := renew_now rn\<rparr>;
             renewed = \<lparr>leaderId = renew_leaderId rn, timestamp = renew_now rn\<rparr>
         in case renew_put rn of
              Rejected e \<Rightarrow> ([PUT_leader renewed], w1)
            | Response okay st txt \<Rightarrow>
                ([PUT_leader renewed],
                 if okay then w1\<lparr>ghostSaveLeader := Some renewed\<rparr> else w1))
      else ([], w))"

subsection \<open>Scenarios for the batch writer and the lease\<close>

definition rejected :: "http_result \<Rightarrow> bool" where
  "rejected resp = (case resp of Rejected e \<Rightarrow> True | Response okay st txt \<Rightarrow> False)"

text \<open>The index range the specification assigns to batch \<open>k\<close> of a collection of \<open>n\<close>.\<close>

definition batch_range :: "nat \<Rightarrow> nat \<Rightarrow> nat list" where
  "batch_range n k = [k * 50..<min (k * 50 + 50) n]"

definition positions_120 :: "Vector3 option list" where
  "positions_120 = replicate 120 (Some \<lparr>v_x = 1, v_y = 0, v_z = 2\<rparr>)"

definition leader_world :: ghost_world where
  "leader_world =
     \<lparr>ghostPositionsData = Map.empty, positionsSavedAt = 0, lastLeaderCheckTime = 0,
      isInitialized = True, isLeader = True,
      ghostSaveLeader = Some \<lparr>leaderId = 0, timestamp = 0\<rparr>\<rparr>"

text \<open>The PATCH request that the loop sends for batch \<open>k\<close>.\<close>

definition planned :: "int \<Rightarrow> Vector3 option list \<Rightarrow> nat \<Rightarrow> request" where
  "planned now positions k =
     PATCH_positions
       (build_batch now positions (k * BATCH_SIZE)
          (min (k * BATCH_SIZE + BATCH_SIZE) (length positions)))"



section \<open>diamond-states-persistence\<close>

datatype diamond_phase =
  available | collected | dropped | hidden | emerging | collectible | disappearing
  | respawning | carried















section \<open>Properties of retryWithBackoff\<close>

lemma backoff_trace_1: "backoff_trace 1 = [Invoked 1]"
  by (simp add: backoff_trace_def)

lemma backoff_trace_2: "backoff_trace 2 = [Invoked 1, Waited 1000, Invoked 2]"
  by (simp add: backoff_trace_def upt_rec)

lemma backoff_trace_3:
  "backoff_trace 3 = [Invoked 1, Waited 1000, Invoked 2, Waited 2000, Invoked 3]"
  by (simp add: backoff_trace_def upt_rec)

lemma retry_loop_first:
  "retry_loop operation 3 1000 1 le evs =
     (case operation 1 of
        Inr v \<Rightarrow> (Inr v, evs @ [Invoked 1])
      | Inl err \<Rightarrow>
          if isCancellation err then (Inl err, evs @ [Invoked 1])
          else retry_loop operation 3 1000 2 (Some err) (evs @ [Invoked 1, Waited 1000]))"
  by (subst retry_loop.simps)
     (simp add: RETRY_BACKOFF_MULTIPLIER_def numeral_2_eq_2 numeral_3_eq_3 split: sum.splits)

lemma retry_loop_second:
  "retry_loop operation 3 1000 2 le evs =
     (case operation 2 of
        Inr v \<Rightarrow> (Inr v, evs @ [Invoked 2])
      | Inl err \<Rightarrow>
          if isCancellation err then (Inl err, evs @ [Invoked 2])
          else retry_loop operation 3 1000 3 (Some err) (evs @ [Invoked 2, Waited 2000]))"
  by (subst retry_loop.simps)
     (simp add: RETRY_BACKOFF_MULTIPLIER_def numeral_2_eq_2 numeral_3_eq_3 split: sum.splits)

lemma retry_loop_third:
  "retry_loop operation 3 1000 3 le evs =
     (case operation 3 of
        Inr v \<Rightarrow> (Inr v, evs @ [Invoked 3])
      | Inl err \<Rightarrow> (Inl err, evs @ [Invoked 3]))"
  by (subst retry_loop.simps)
     (simp add: RETRY_BACKOFF_MULTIPLIER_def numeral_2_eq_2 numeral_3_eq_3 split: sum.splits)

text \<open>The default call, unrolled: three attempts at most, each decided by its outcome.\<close>

lemma retryWithBackoff_default_unrolled:
  "retryWithBackoff_default operation =
     (case operation 1 of Inr v \<Rightarrow> (Inr v, backoff_trace 1)
      | Inl e1 \<Rightarrow> if isCancellation e1 then (Inl e1, backoff_trace 1) else
         (case operation 2 of Inr v \<Rightarrow> (Inr v, backoff_trace 2)
          | Inl e2 \<Rightarrow> if isCancellation e2 then (Inl e2, backoff_trace 2) else
             (case operation 3 of Inr v \<Rightarrow> (Inr v, backoff_trace 3)
              | Inl e3 \<Rightarrow> (Inl e3, backoff_trace 3))))"
  unfolding retryWithBackoff_default_def retryWithBackoff_def MAX_RETRY_ATTEMPTS_def
    RETRY_DELAY_MS_def retry_loop_first retry_loop_second retry_loop_third
    backoff_trace_1 backoff_trace_2 backoff_trace_3
  by (simp split: sum.splits)

lemma retryWithBackoff_default_trace:
  "\<exists>m\<in>{1, 2, 3}. snd (retryWithBackoff_default operation) = backoff_trace m"
  unfolding retryWithBackoff_default_unrolled by (simp split: sum.splits)

lemma retryWithBackoff_default_teardown:
  assumes k: "1 \<le> k" "k \<le> 3"
    and before: "\<forall>j. 1 \<le> j \<and> j < k \<longrightarrow> fails_retryably (operation j)"
    and at: "operation k = Inl e" "isCancellation e"
  shows "retryWithBackoff_default operation = (Inl e, backoff_trace k)"
proof -
  from k consider "k = 1" | "k = 2" | "k = 3" by linarith
  then show ?thesis
  proof cases
    case 1
    with at show ?thesis unfolding retryWithBackoff_default_unrolled by simp
  next
    case 2
    with before have "fails_retryably (operation 1)" by simp
    then obtain e1 where e1: "operation 1 = Inl e1" "\<not> isCancellation e1"
      by (auto simp add: fails_retryably_def split: sum.splits)
    from 2 at have "operation 2 = Inl e" by simp
    with 2 e1 at(2) show ?thesis unfolding retryWithBackoff_default_unrolled by simp
  next
    case 3
    with before have "fails_retryably (operation 1)" "fails_retryably (operation 2)"
      by simp_all
    then obtain e1 e2 where e12: "operation 1 = Inl e1" "\<not> isCancellation e1"
        "operation 2 = Inl e2" "\<not> isCancellation e2"
      by (auto simp add: fails_retryably_def split: sum.splits)
    from 3 at have "operation 3 = Inl e" by simp
    with 3 e12 show ?thesis unfolding retryWithBackoff_default_unrolled by simp
  qed
qed

text \<open>
  Claim C4. With the default parameters the operation is invoked at most three times; the
  events of a run are exactly an alternation of attempts and timer delays in which the delay
  that precedes attempt \<open>k + 1\<close> is \<open>1000 * 2 ^ (k - 1)\<close> ms and nothing follows the last
  attempt; and when attempt \<open>k\<close> fails with an environment-teardown error (the earlier
  attempts having failed with ordinary errors), that very error is the result and the run
  ends with attempt \<open>k\<close>: no delay and no further attempt.
\<close>

theorem retryWithBackoff_default_contract:
  "length (invocations (snd (retryWithBackoff_default operation))) \<le> 3
   \<and> (\<exists>m\<in>{1, 2, 3}. snd (retryWithBackoff_default operation) = backoff_trace m)
   \<and> (\<forall>k e. 1 \<le> k \<and> k \<le> 3
          \<and> (\<forall>j. 1 \<le> j \<and> j < k \<longrightarrow> fails_retryably (operation j))
          \<and> operation k = Inl e \<and> isCancellation e
        \<longrightarrow> retryWithBackoff_default operation = (Inl e, backoff_trace k))"
proof (intro conjI allI impI)
  obtain m where m: "m \<in> {1, 2, 3}"
      "snd (retryWithBackoff_default operation) = backoff_trace m"
    using retryWithBackoff_default_trace [of operation] by blast
  from m(1) consider "m = 1" | "m = 2" | "m = 3" by auto
  then show "length (invocations (snd (retryWithBackoff_default operation))) \<le> 3"
  proof cases
    case 1
    show ?thesis unfolding m(2) 1 backoff_trace_1 by simp
  next
    case 2
    show ?thesis unfolding m(2) 2 backoff_trace_2 by simp
  next
    case 3
    show ?thesis unfolding m(2) 3 backoff_trace_3 by simp
  qed
next
  show "\<exists>m\<in>{1, 2, 3}. snd (retryWithBackoff_default operation) = backoff_trace m"
    by (rule retryWithBackoff_default_trace)
next
  fix k e
  assume "1 \<le> k \<and> k \<le> 3
          \<and> (\<forall>j. 1 \<le> j \<and> j < k \<longrightarrow> fails_retryably (operation j))
          \<and> operation k = Inl e \<and> isCancellation e"
  then show "retryWithBackoff_default operation = (Inl e, backoff_trace k)"
    using retryWithBackoff_default_teardown [of k operation e] by blast
qed

text \<open>
  Witness for C4: the first attempt fails with an HTTP error, the second with the teardown
  error; the run is attempt, one second of delay, attempt, and the teardown error comes out.
\<close>

theorem retryWithBackoff_default_contract_witness:
  "fails_retryably
     ((\<lambda>k. if k = 1 then Inl (JsError ''HTTP 500: Internal Server Error'')
           else Inl (JsError ''CancellationTokenSource has been disposed'')) (1::nat)
        :: unit promise)
   \<and> isCancellation (JsError ''CancellationTokenSource has been disposed'')
   \<and> retryWithBackoff_default
        (\<lambda>k. if k = 1 then Inl (JsError ''HTTP 500: Internal Server Error'')
              else (Inl (JsError ''CancellationTokenSource has been disposed'') :: unit promise))
      = (Inl (JsError ''CancellationTokenSource has been disposed''),
         [Invoked 1, Waited 1000, Invoked 2])"
proof -
  let ?op = "\<lambda>k::nat. if k = 1 then Inl (JsError ''HTTP 500: Internal Server Error'')
              else (Inl (JsError ''CancellationTokenSource has been disposed'') :: unit promise)"
  have c: "isCancellation (JsError ''CancellationTokenSource has been disposed'')"
    by simp
  have f: "fails_retryably (?op 1)"
    by (simp add: fails_retryably_def)
  have b: "\<forall>j. 1 \<le> j \<and> j < 2 \<longrightarrow> fails_retryably (?op j)"
  proof (intro allI impI)
    fix j :: nat
    assume "1 \<le> j \<and> j < 2"
    then have "j = 1" by linarith
    with f show "fails_retryably (?op j)" by simp
  qed
  have "1 \<le> (2::nat) \<and> (2::nat) \<le> 3 \<and> (\<forall>j. 1 \<le> j \<and> j < 2 \<longrightarrow> fails_retryably (?op j))
        \<and> ?op 2 = Inl (JsError ''CancellationTokenSource has been disposed'')
        \<and> isCancellation (JsError ''CancellationTokenSource has been disposed'')"
    using b c by simp
  then have "retryWithBackoff_default ?op =
      (Inl (JsError ''CancellationTokenSource has been disposed''), backoff_trace 2)"
    using retryWithBackoff_default_contract [of ?op] by blast
  with f c show ?thesis
    by (simp only: backoff_trace_2)
qed

section \<open>Effects of the robust save, field by field\<close>

lemma length_collect_backup: "length (collect_backup src resp content) \<le> 1"
  by (simp add: collect_backup_def split: http_result.splits option.splits)

lemma limitPlayerBackups_noop: "limitPlayerBackups net address w = (Inr (), w)"
proof -
  have "length (collect_backup ''primary'' (limit_primary_get net) (players_diamondCount w address)
            @ collect_backup ''backup'' (limit_backup_get net) (diamondBackups w address)
            @ collect_backup ''global'' (limit_global_get net) (globalDiamondBackup w address)) \<le> 3"
    using length_collect_backup [of "''primary''" "limit_primary_get net" "players_diamondCount w address"]
      length_collect_backup [of "''backup''" "limit_backup_get net" "diamondBackups w address"]
      length_collect_backup [of "''global''" "limit_global_get net" "globalDiamondBackup w address"]
    by simp
  then show ?thesis
    by (simp add: limitPlayerBackups_def Let_def MAX_BACKUPS_PER_PLAYER_def)
qed

lemma primary_resume_eq:
  "savePlayerDiamondsPrimary_resume net a n d m w =
     (Inr (m \<and> primary_accepted net),
      if m then
        (if primary_accepted net
         then w\<lparr>players_diamondCount := (players_diamondCount w)(a \<mapsto> primary_data n d (now_start net)),
                writeMutex := False\<rparr>
         else w\<lparr>writeMutex := False\<rparr>)
      else w)"
  by (simp add: savePlayerDiamondsPrimary_resume_def primary_accepted_def releaseWriteMutex_def
      split: sum.splits)

lemma backup_eq:
  "savePlayerDiamondsBackup net a n d w =
     (Inr (accepted (backup_put net)),
      if accepted (backup_put net)
      then w\<lparr>diamondBackups := (diamondBackups w)(a \<mapsto> backup_data d (now_start net))\<rparr>
      else w)"
  by (simp add: savePlayerDiamondsBackup_def accepted_def split: http_result.splits)

lemma global_eq:
  "saveGlobalDiamondBackup net a n d w =
     (Inr (accepted (global_patch net)),
      if accepted (global_patch net)
      then w\<lparr>globalDiamondBackup := (globalDiamondBackup w)(a \<mapsto> global_data n d (now_start net))\<rparr>
      else w)"
  by (simp add: saveGlobalDiamondBackup_def accepted_def split: http_result.splits)

lemmas resume_unfold = savePlayerDiamondsRobust_resume_def primary_resume_eq backup_eq global_eq
  limitPlayerBackups_noop Let_def count_success_def savePlayerDiamondsLocally_def any_accepted_def

lemma resume_result: "fst (savePlayerDiamondsRobust_resume net a n d m w) =
   (Inr True, \<not> any_accepted net m \<and> \<not> isProcessingQueue w)"
  by (simp add: resume_unfold)

lemma resume_local: "localDiamondStorage (snd (savePlayerDiamondsRobust_resume net a n d m w)) =
   (localDiamondStorage w)(a \<mapsto> \<lparr>loc_address = a, loc_name = n, loc_diamonds = d,
                          loc_timestamp = now_end net, loc_version = 2\<rparr>)"
  by (simp add: resume_unfold)

lemma resume_primary: "players_diamondCount (snd (savePlayerDiamondsRobust_resume net a n d m w)) =
   (if m \<and> primary_accepted net then (players_diamondCount w)(a \<mapsto> primary_data n d (now_start net))
    else players_diamondCount w)"
  by (simp add: resume_unfold)

lemma resume_backup: "diamondBackups (snd (savePlayerDiamondsRobust_resume net a n d m w)) =
   (if accepted (backup_put net) then (diamondBackups w)(a \<mapsto> backup_data d (now_start net))
    else diamondBackups w)"
  by (simp add: resume_unfold)

lemma resume_global: "globalDiamondBackup (snd (savePlayerDiamondsRobust_resume net a n d m w)) =
   (if accepted (global_patch net) then (globalDiamondBackup w)(a \<mapsto> global_data n d (now_start net))
    else globalDiamondBackup w)"
  by (simp add: resume_unfold)

lemma resume_mutex: "writeMutex (snd (savePlayerDiamondsRobust_resume net a n d m w)) =
   (if m then False else writeMutex w)"
  by (simp add: resume_unfold)

lemma resume_processing: "isProcessingQueue (snd (savePlayerDiamondsRobust_resume net a n d m w)) =
   isProcessingQueue w"
  by (simp add: resume_unfold)

lemma resume_queue: "failedSavesQueue (snd (savePlayerDiamondsRobust_resume net a n d m w)) =
   (if any_accepted net m then failedSavesQueue w
    else failedSavesQueue w @ [\<lparr>fs_address = a, fs_name = n, fs_diamonds = d,
                             fs_attempts = 0, fs_lastAttempt = now_end net\<rparr>])"
  by (simp add: resume_unfold)

lemma resume_retryAttempts: "retryAttempts (saveMetrics (snd (savePlayerDiamondsRobust_resume net a n d m w))) =
   retryAttempts (saveMetrics w)"
  by (simp add: resume_unfold)

lemma begin_eq: "savePlayerDiamondsRobust_begin net w =
   (\<not> writeMutex w, w\<lparr>saveMetrics := (saveMetrics w)\<lparr>totalAttempts := totalAttempts (saveMetrics w) + 1,
                             lastSaveTime := now_start net\<rparr>, writeMutex := True\<rparr>)"
  by (simp add: savePlayerDiamondsRobust_begin_def acquireWriteMutex_def)

lemma save_split: "savePlayerDiamondsRobust net a n d w =
   savePlayerDiamondsRobust_resume net a n d (\<not> writeMutex w)
     (w\<lparr>saveMetrics := (saveMetrics w)\<lparr>totalAttempts := totalAttempts (saveMetrics w) + 1,
                             lastSaveTime := now_start net\<rparr>, writeMutex := True\<rparr>)"
  by (simp add: savePlayerDiamondsRobust_def begin_eq)

lemma save_result: "fst (savePlayerDiamondsRobust net a n d w) =
   (Inr True, \<not> any_accepted net (\<not> writeMutex w) \<and> \<not> isProcessingQueue w)"
  by (simp add: save_split resume_result)

lemma save_local: "localDiamondStorage (snd (savePlayerDiamondsRobust net a n d w)) =
   (localDiamondStorage w)(a \<mapsto> \<lparr>loc_address = a, loc_name = n, loc_diamonds = d,
                          loc_timestamp = now_end net, loc_version = 2\<rparr>)"
  by (simp add: save_split resume_local)

lemma save_primary: "players_diamondCount (snd (savePlayerDiamondsRobust net a n d w)) =
   (if \<not> writeMutex w \<and> primary_accepted net then (players_diamondCount w)(a \<mapsto> primary_data n d (now_start net))
    else players_diamondCount w)"
  by (simp add: save_split resume_primary)

lemma save_backup: "diamondBackups (snd (savePlayerDiamondsRobust net a n d w)) =
   (if accepted (backup_put net) then (diamondBackups w)(a \<mapsto> backup_data d (now_start net))
    else diamondBackups w)"
  by (simp add: save_split resume_backup)

lemma save_global: "globalDiamondBackup (snd (savePlayerDiamondsRobust net a n d w)) =
   (if accepted (global_patch net) then (globalDiamondBackup w)(a \<mapsto> global_data n d (now_start net))
    else globalDiamondBackup w)"
  by (simp add: save_split resume_global)

lemma save_mutex: "writeMutex (snd (savePlayerDiamondsRobust net a n d w)) = writeMutex w"
  by (simp add: save_split resume_mutex)

lemma save_processing: "isProcessingQueue (snd (savePlayerDiamondsRobust net a n d w)) = isProcessingQueue w"
  by (simp add: save_split resume_processing)

lemma save_queue: "failedSavesQueue (snd (savePlayerDiamondsRobust net a n d w)) =
   (if any_accepted net (\<not> writeMutex w) then failedSavesQueue w
    else failedSavesQueue w @ [\<lparr>fs_address = a, fs_name = n, fs_diamonds = d,
                             fs_attempts = 0, fs_lastAttempt = now_end net\<rparr>])"
  by (simp add: save_split resume_queue)

lemma save_retryAttempts: "retryAttempts (saveMetrics (snd (savePlayerDiamondsRobust net a n d w))) =
   retryAttempts (saveMetrics w)"
  by (simp add: save_split resume_retryAttempts)

lemma up_accepted: "primary_accepted (net_up t)" "accepted (backup_put (net_up t))" "accepted (global_patch (net_up t))"
  "now_start (net_up t) = t" "now_end (net_up t) = t"
  by (simp_all add: primary_accepted_def retryWithBackoff_default_unrolled primary_operation_def net_up_def accepted_def)

lemma down_accepted: "\<not> primary_accepted (net_down t)" "\<not> accepted (backup_put (net_down t))" "\<not> accepted (global_patch (net_down t))"
  "now_start (net_down t) = t" "now_end (net_down t) = t"
  by (simp_all add: primary_accepted_def retryWithBackoff_default_unrolled primary_operation_def net_down_def accepted_def)

subsection \<open>The reconciled read\<close>

lemma load_eq: "loadPlayerDiamondsRobust rn a w = reconciled_spec rn a w"
proof -
  have an: "\<And>resp content. analyse_source (fetch_json resp content) = filter (\<lambda>d. 0 < d) (remote_reading resp content)"
    by (simp add: analyse_source_def fetch_json_def remote_reading_def Let_def split: http_result.splits option.splits)
  have lc: "(if 0 < loadPlayerDiamondsLocally a w then [loadPlayerDiamondsLocally a w] else []) =
      filter (\<lambda>d. 0 < d) (case localDiamondStorage w a of Some localData \<Rightarrow> [loc_diamonds localData] | None \<Rightarrow> [])"
    by (simp add: loadPlayerDiamondsLocally_def split: option.splits)
  have mx: "\<And>xs::int list. (case xs of [] \<Rightarrow> 0 | d # ds \<Rightarrow> foldl max d ds) = (if xs = [] then 0 else Max (set xs))"
  proof -
    fix xs :: "int list"
    have sw: "(\<lambda>(x::int) s. max s x) = max"
      by (intro ext) (simp add: max.commute)
    show "(case xs of [] \<Rightarrow> 0 | d # ds \<Rightarrow> foldl max d ds) = (if xs = [] then 0 else Max (set xs))"
      by (cases xs) (simp_all add: Max.set_eq_fold foldl_conv_fold sw del: set_simps)
  qed
  have "loadPlayerDiamondsRobust rn a w =
     (case filter (\<lambda>d. 0 < d) (source_readings rn a w) of [] \<Rightarrow> 0 | d # ds \<Rightarrow> foldl max d ds)"
    unfolding loadPlayerDiamondsRobust_def Let_def source_readings_def filter_append lc [symmetric] an [symmetric]
    by simp
  then show ?thesis unfolding reconciled_spec_def Let_def mx .
qed

lemma reconciled_spec_ge:
  assumes "x \<in> set (source_readings rn a w)"
  shows "x \<le> reconciled_spec rn a w"
proof (cases "0 < x")
  case True
  with assms have "x \<in> set (filter (\<lambda>d. 0 < d) (source_readings rn a w))" by simp
  then have mem: "x \<in> set (filter (\<lambda>d. 0 < d) (source_readings rn a w))" .
  then have ne: "filter (\<lambda>d. 0 < d) (source_readings rn a w) \<noteq> []"
    by (cases "filter (\<lambda>d. 0 < d) (source_readings rn a w)") auto
  from mem have "x \<le> Max (set (filter (\<lambda>d. 0 < d) (source_readings rn a w)))"
    by (intro Max_ge) simp_all
  with ne show ?thesis
    by (simp add: reconciled_spec_def Let_def)
next
  case False
  show ?thesis
  proof (cases "filter (\<lambda>d. 0 < d) (source_readings rn a w) = []")
    case True
    with False show ?thesis by (simp add: reconciled_spec_def)
  next
    case nonempty: False
    then obtain y where y: "y \<in> set (filter (\<lambda>d. 0 < d) (source_readings rn a w))"
      by (cases "filter (\<lambda>d. 0 < d) (source_readings rn a w)") auto
    then have "y \<le> Max (set (filter (\<lambda>d. 0 < d) (source_readings rn a w)))"
      by (intro Max_ge) simp_all
    moreover from y have "0 < y" by simp
    ultimately show ?thesis using False nonempty
      by (simp add: reconciled_spec_def Let_def)
  qed
qed

lemma local_reading_in:
  "localDiamondStorage w a = Some ld \<Longrightarrow> loc_diamonds ld \<in> set (source_readings rn a w)"
  by (simp add: source_readings_def)

text \<open>
  Claim C1, as amended. The reconciled read is the maximum of the positive readings
  successfully obtained from the primary record, the per-player backup, the global backup
  index and the local fallback cache, and 0 when no source yields a positive reading. It is
  computed over what the sources hold at the time of the read, and each source holds only
  the value written to it last; so after a write has completed the read is at least the
  value of that write (the local cache holds it), whatever the remote outcomes, but it is
  not the maximum of all the values ever written.
\<close>

theorem loadPlayerDiamondsRobust_max_of_positive_readings:
  "loadPlayerDiamondsRobust rn a w = reconciled_spec rn a w
   \<and> d \<le> loadPlayerDiamondsRobust rn a (snd (savePlayerDiamondsRobust net a n d w))
   \<and> d \<le> loadPlayerDiamondsRobust rn a (snd (savePlayerDiamondsRobust_resume net a n d m w))"
proof (intro conjI)
  show "loadPlayerDiamondsRobust rn a w = reconciled_spec rn a w" by (rule load_eq)
next
  let ?w = "snd (savePlayerDiamondsRobust net a n d w)"
  have "localDiamondStorage ?w a = Some \<lparr>loc_address = a, loc_name = n, loc_diamonds = d,
                          loc_timestamp = now_end net, loc_version = 2\<rparr>"
    by (simp add: save_local)
  from local_reading_in [OF this, of rn] show "d \<le> loadPlayerDiamondsRobust rn a ?w"
    unfolding load_eq by (auto dest: reconciled_spec_ge)
next
  let ?w = "snd (savePlayerDiamondsRobust_resume net a n d m w)"
  have "localDiamondStorage ?w a = Some \<lparr>loc_address = a, loc_name = n, loc_diamonds = d,
                          loc_timestamp = now_end net, loc_version = 2\<rparr>"
    by (simp add: resume_local)
  from local_reading_in [OF this, of rn] show "d \<le> loadPlayerDiamondsRobust rn a ?w"
    unfolding load_eq by (auto dest: reconciled_spec_ge)
qed

lemma reads_up_simps: "primary_get reads_up = Response True ''200'' ''OK''"
  "backup_get reads_up = Response True ''200'' ''OK''" "global_get reads_up = Response True ''200'' ''OK''"
  by (simp_all add: reads_up_def)

lemma empty_world_simps: "\<not> writeMutex empty_world" "failedSavesQueue empty_world = []"
  "\<not> isProcessingQueue empty_world" "localDiamondStorage empty_world = Map.empty"
  "players_diamondCount empty_world = Map.empty" "diamondBackups empty_world = Map.empty"
  "globalDiamondBackup empty_world = Map.empty" "retryAttempts (saveMetrics empty_world) = 0"
  by (simp_all add: empty_world_def)

lemma data_diamonds: "doc_diamonds (primary_data n d t) = d" "doc_diamonds (backup_data d t) = d"
  "doc_diamonds (global_data n d t) = d"
  by (simp_all add: primary_data_def backup_data_def global_data_def)

lemmas scenario_simps = load_eq reconciled_spec_def source_readings_def remote_reading_def Let_def
  save_local save_primary save_backup save_global save_mutex
  resume_local resume_primary resume_backup resume_global resume_mutex begin_eq
  up_accepted reads_up_simps empty_world_simps data_diamonds

lemma seq3: "loadPlayerDiamondsRobust reads_up ''p1'' settled_sequential = 3"
  by (simp add: settled_sequential_def scenario_simps)

lemma ovl3: "loadPlayerDiamondsRobust reads_up ''p1'' settled_overlapped = 3"
  by (simp add: settled_overlapped_def scenario_simps)

text \<open>
  Counterexample to claim C1 as stated: two writes to the same counter, carrying 5 and 3,
  have settled into all four sources (once run one after the other, once overlapping), and
  the reconciled read is 3, not \<open>max 5 3\<close>.
\<close>

theorem reconciled_read_below_max_of_writes:
  "loadPlayerDiamondsRobust reads_up ''p1'' settled_sequential = 3
   \<and> loadPlayerDiamondsRobust reads_up ''p1'' settled_overlapped = 3
   \<and> loadPlayerDiamondsRobust reads_up ''p1'' settled_sequential \<noteq> Max {5, 3}
   \<and> loadPlayerDiamondsRobust reads_up ''p1'' settled_overlapped \<noteq> Max {3, 5}"
  by (simp add: seq3 ovl3)

subsection \<open>The caller contract of the robust save\<close>

text \<open>
  Claim C3. Whatever the network does, whatever the state of the module, and whether the
  call runs alone or resumes after other calls ran during its suspension, the promise of
  \<open>savePlayerDiamondsRobust\<close> is fulfilled (it never throws) with \<open>true\<close>, and the local
  fallback cache holds the value of this call afterwards.
\<close>

theorem savePlayerDiamondsRobust_always_true_and_local:
  "fst (fst (savePlayerDiamondsRobust net a n d w)) = Inr True
  \<and> localDiamondStorage (snd (savePlayerDiamondsRobust net a n d w)) a =
     Some \<lparr>loc_address = a, loc_name = n, loc_diamonds = d, loc_timestamp = now_end net, loc_version = 2\<rparr>
  \<and> fst (fst (savePlayerDiamondsRobust_resume net a n d m w)) = Inr True
  \<and> localDiamondStorage (snd (savePlayerDiamondsRobust_resume net a n d m w)) a =
     Some \<lparr>loc_address = a, loc_name = n, loc_diamonds = d, loc_timestamp = now_end net, loc_version = 2\<rparr>"
  by (simp add: save_result save_local resume_result resume_local)

subsection \<open>The integrity check\<close>

lemma hold3: "loadPlayerDiamondsRobust reads_up ''p1'' replicas_hold_3 = 3"
  by (simp add: replicas_hold_3_def scenario_simps)

lemma hold3_fields: "map_option doc_diamonds (players_diamondCount replicas_hold_3 ''p1'') = Some 3"
  "map_option doc_diamonds (diamondBackups replicas_hold_3 ''p1'') = Some 3"
  "map_option doc_diamonds (globalDiamondBackup replicas_hold_3 ''p1'') = Some 3"
  "map_option loc_diamonds (localDiamondStorage replicas_hold_3 ''p1'') = Some 3"
  by (simp_all add: replicas_hold_3_def scenario_simps)

text \<open>
  Counterexample to claim C9 as stated: the in-memory value is 5 and the reconciled read is
  3. The check returns 5, starts no write, and leaves every replica holding 3.
\<close>

theorem verifyDiamondIntegrity_no_write_back_counterexample:
  "verifyDiamondIntegrity reads_up (net_up 9) ''p1'' ''Ann'' 5 replicas_hold_3
      = ((Inr 5, False), replicas_hold_3)
   \<and> map_option doc_diamonds (players_diamondCount replicas_hold_3 ''p1'') = Some 3
   \<and> map_option doc_diamonds (diamondBackups replicas_hold_3 ''p1'') = Some 3
   \<and> map_option doc_diamonds (globalDiamondBackup replicas_hold_3 ''p1'') = Some 3
   \<and> map_option loc_diamonds (localDiamondStorage replicas_hold_3 ''p1'') = Some 3"
  by (simp add: verifyDiamondIntegrity_def Let_def hold3 hold3_fields)

lemma verify_eq:
  "verifyDiamondIntegrity rn net a n c w =
     (if c < loadPlayerDiamondsRobust rn a w
      then ((Inr (loadPlayerDiamondsRobust rn a w),
             snd (fst (savePlayerDiamondsRobust net a n (loadPlayerDiamondsRobust rn a w) w))),
            snd (savePlayerDiamondsRobust net a n (loadPlayerDiamondsRobust rn a w) w))
      else ((Inr c, False), w))"
proof -
  obtain r st w' where sv:
    "savePlayerDiamondsRobust net a n (max c (loadPlayerDiamondsRobust rn a w)) w = ((r, st), w')"
    by (metis prod.collapse)
  have "fst (savePlayerDiamondsRobust net a n (max c (loadPlayerDiamondsRobust rn a w)) w)
          = (Inr True, st)"
    using save_result [of net a n "max c (loadPlayerDiamondsRobust rn a w)" w] sv by simp
  with sv have r: "r = Inr True" by simp
  show ?thesis
  proof (cases "c < loadPlayerDiamondsRobust rn a w")
    case True
    then have mx: "max c (loadPlayerDiamondsRobust rn a w) = loadPlayerDiamondsRobust rn a w"
      by simp
    from True sv r show ?thesis
      by (simp add: verifyDiamondIntegrity_def Let_def mx)
  next
    case False
    then have mx: "max c (loadPlayerDiamondsRobust rn a w) = c" by simp
    from False show ?thesis
      by (simp add: verifyDiamondIntegrity_def Let_def mx)
  qed
qed

text \<open>
  Claim C9, as amended. The integrity check returns the higher of the in-memory value and
  the reconciled read, for the caller to adopt. When the reconciled read is the higher one
  it is written back with \<open>savePlayerDiamondsRobust\<close>: the local cache then holds it, and
  so does every replica whose request the backend accepted (the primary one only if the
  write mutex was free). When the in-memory value is the higher one, or the two agree,
  nothing is written and no state changes.
\<close>

theorem verifyDiamondIntegrity_higher_value_wins:
  "fst (fst (verifyDiamondIntegrity rn net a n c w)) = Inr (max c (loadPlayerDiamondsRobust rn a w))
   \<and> (c < loadPlayerDiamondsRobust rn a w \<longrightarrow>
        snd (verifyDiamondIntegrity rn net a n c w) =
          snd (savePlayerDiamondsRobust net a n (loadPlayerDiamondsRobust rn a w) w)
        \<and> map_option loc_diamonds (localDiamondStorage (snd (verifyDiamondIntegrity rn net a n c w)) a)
            = Some (loadPlayerDiamondsRobust rn a w)
        \<and> (\<not> writeMutex w \<and> primary_accepted net \<longrightarrow>
             map_option doc_diamonds (players_diamondCount (snd (verifyDiamondIntegrity rn net a n c w)) a)
               = Some (loadPlayerDiamondsRobust rn a w))
        \<and> (accepted (backup_put net) \<longrightarrow>
             map_option doc_diamonds (diamondBackups (snd (verifyDiamondIntegrity rn net a n c w)) a)
               = Some (loadPlayerDiamondsRobust rn a w))
        \<and> (accepted (global_patch net) \<longrightarrow>
             map_option doc_diamonds (globalDiamondBackup (snd (verifyDiamondIntegrity rn net a n c w)) a)
               = Some (loadPlayerDiamondsRobust rn a w)))
   \<and> (loadPlayerDiamondsRobust rn a w \<le> c \<longrightarrow>
        verifyDiamondIntegrity rn net a n c w = ((Inr c, False), w))"
  by (simp add: verify_eq save_local save_primary save_backup save_global data_diamonds)

text \<open>
  Witness for C9: with every source holding 3, a check against an in-memory 5 changes
  nothing, and a check against an in-memory 1 returns 3 and the backup replica, whose
  request is accepted, holds 3 afterwards.
\<close>

theorem verifyDiamondIntegrity_higher_value_wins_witness:
  "loadPlayerDiamondsRobust reads_up ''p1'' replicas_hold_3 \<le> 5
   \<and> verifyDiamondIntegrity reads_up (net_up 9) ''p1'' ''Ann'' 5 replicas_hold_3
       = ((Inr 5, False), replicas_hold_3)
   \<and> 1 < loadPlayerDiamondsRobust reads_up ''p1'' replicas_hold_3
   \<and> fst (fst (verifyDiamondIntegrity reads_up (net_up 9) ''p1'' ''Ann'' 1 replicas_hold_3)) = Inr 3
   \<and> accepted (backup_put (net_up 9))
   \<and> map_option doc_diamonds
        (diamondBackups (snd (verifyDiamondIntegrity reads_up (net_up 9) ''p1'' ''Ann'' 1 replicas_hold_3)) ''p1'')
       = Some 3"
proof -
  have lo: "loadPlayerDiamondsRobust reads_up ''p1'' replicas_hold_3 \<le> 5"
    and hi: "1 < loadPlayerDiamondsRobust reads_up ''p1'' replicas_hold_3"
    by (simp_all add: hold3)
  have acc: "accepted (backup_put (net_up 9))"
    by (rule up_accepted)
  note at5 = verifyDiamondIntegrity_higher_value_wins [of reads_up "net_up 9" "''p1''" "''Ann''" 5 replicas_hold_3]
  note at1 = verifyDiamondIntegrity_higher_value_wins [of reads_up "net_up 9" "''p1''" "''Ann''" 1 replicas_hold_3]
  from at5 lo have a: "verifyDiamondIntegrity reads_up (net_up 9) ''p1'' ''Ann'' 5 replicas_hold_3
       = ((Inr 5, False), replicas_hold_3)"
    by blast
  from at1 have "fst (fst (verifyDiamondIntegrity reads_up (net_up 9) ''p1'' ''Ann'' 1 replicas_hold_3))
       = Inr (max 1 (loadPlayerDiamondsRobust reads_up ''p1'' replicas_hold_3))"
    by blast
  then have b: "fst (fst (verifyDiamondIntegrity reads_up (net_up 9) ''p1'' ''Ann'' 1 replicas_hold_3))
       = Inr 3"
    by (simp add: hold3)
  from at1 hi acc have "map_option doc_diamonds
        (diamondBackups (snd (verifyDiamondIntegrity reads_up (net_up 9) ''p1'' ''Ann'' 1 replicas_hold_3)) ''p1'')
       = Some (loadPlayerDiamondsRobust reads_up ''p1'' replicas_hold_3)"
    by blast
  then have c: "map_option doc_diamonds
        (diamondBackups (snd (verifyDiamondIntegrity reads_up (net_up 9) ''p1'' ''Ann'' 1 replicas_hold_3)) ''p1'')
       = Some 3"
    by (simp only: hold3)
  from lo hi acc a b c show ?thesis by blast
qed

subsection \<open>The retry queue\<close>

lemma process_entries_due:
  assumes i: "i < length (failedSavesQueue w)"
    and due: "\<not> q_now qn - fs_lastAttempt (failedSavesQueue w ! i) < retryDelay"
  shows "process_entries qn (Suc i) w =
     process_entries qn i
       ((snd (savePlayerDiamondsRobust (q_saves qn i) (fs_address (failedSavesQueue w ! i))
                (fs_name (failedSavesQueue w ! i)) (fs_diamonds (failedSavesQueue w ! i))
                (w\<lparr>failedSavesQueue :=
                     (failedSavesQueue w)
                       [i := (failedSavesQueue w ! i)
                               \<lparr>fs_attempts := fs_attempts (failedSavesQueue w ! i) + 1,
                                fs_lastAttempt := q_now qn\<rparr>],
                   saveMetrics :=
                     (saveMetrics w)\<lparr>retryAttempts := retryAttempts (saveMetrics w) + 1\<rparr>\<rparr>)))
        \<lparr>failedSavesQueue :=
           splice1 i
             (failedSavesQueue
                (snd (savePlayerDiamondsRobust (q_saves qn i) (fs_address (failedSavesQueue w ! i))
                (fs_name (failedSavesQueue w ! i)) (fs_diamonds (failedSavesQueue w ! i))
                (w\<lparr>failedSavesQueue :=
                     (failedSavesQueue w)
                       [i := (failedSavesQueue w ! i)
                               \<lparr>fs_attempts := fs_attempts (failedSavesQueue w ! i) + 1,
                                fs_lastAttempt := q_now qn\<rparr>],
                   saveMetrics :=
                     (saveMetrics w)\<lparr>retryAttempts := retryAttempts (saveMetrics w) + 1\<rparr>\<rparr>))))\<rparr>)"
  (is "_ = process_entries qn i (snd ?sv \<lparr>failedSavesQueue := splice1 i (failedSavesQueue (snd ?sv))\<rparr>)")
proof -
  obtain r st w2 where sv: "?sv = ((r, st), w2)"
    by (metis prod.collapse)
  have "fst (fst ?sv) = Inr True"
    by (simp only: save_result fst_conv)
  then have r: "r = Inr True"
    unfolding sv by simp
  from i due sv r show ?thesis
    by (simp add: Let_def)
qed

lemma pass_step:
  assumes q: "failedSavesQueue w =
      [\<lparr>fs_address = ''p1'', fs_name = ''Ann'', fs_diamonds = 7, fs_attempts = 0, fs_lastAttempt = t0\<rparr>]"
    and np: "\<not> isProcessingQueue w" and due: "t0 + 5000 \<le> t"
  shows "fst (processFailedSavesQueue (drain_down t) w) = (Inr (), True)"
    and "failedSavesQueue (snd (processFailedSavesQueue (drain_down t) w)) =
      [\<lparr>fs_address = ''p1'', fs_name = ''Ann'', fs_diamonds = 7, fs_attempts = 0, fs_lastAttempt = t\<rparr>]"
    and "\<not> isProcessingQueue (snd (processFailedSavesQueue (drain_down t) w))"
    and "retryAttempts (saveMetrics (snd (processFailedSavesQueue (drain_down t) w))) =
           retryAttempts (saveMetrics w) + 1"
proof -
  let ?w0 = "w\<lparr>isProcessingQueue := True\<rparr>"
  have i: "0 < length (failedSavesQueue ?w0)" using q by simp
  have d: "\<not> q_now (drain_down t) - fs_lastAttempt (failedSavesQueue ?w0 ! 0) < retryDelay"
    using q due by (simp add: drain_down_def retryDelay_def)
  have qs: "q_saves (drain_down t) 0 = net_down t" "q_now (drain_down t) = t"
    by (simp_all add: drain_down_def)
  have na: "\<And>m. \<not> any_accepted (net_down t) m"
    by (simp add: any_accepted_def down_accepted)
  note pe = process_entries_due [OF i d, unfolded qs]
  have len: "length (failedSavesQueue w) = Suc 0" using q by simp
  show "fst (processFailedSavesQueue (drain_down t) w) = (Inr (), True)"
    using np q by (simp del: process_entries.simps(2) add: processFailedSavesQueue_def len pe Let_def save_queue na splice1_def)
  show "failedSavesQueue (snd (processFailedSavesQueue (drain_down t) w)) =
      [\<lparr>fs_address = ''p1'', fs_name = ''Ann'', fs_diamonds = 7, fs_attempts = 0, fs_lastAttempt = t\<rparr>]"
    using np q by (simp del: process_entries.simps(2) add: processFailedSavesQueue_def len pe Let_def save_queue na splice1_def down_accepted)
  show "\<not> isProcessingQueue (snd (processFailedSavesQueue (drain_down t) w))"
    using np q by (simp del: process_entries.simps(2) add: processFailedSavesQueue_def len pe Let_def)
  show "retryAttempts (saveMetrics (snd (processFailedSavesQueue (drain_down t) w))) =
           retryAttempts (saveMetrics w) + 1"
    using np q by (simp del: process_entries.simps(2) add: processFailedSavesQueue_def len pe Let_def save_retryAttempts)
qed

lemma failed_world:
  "failedSavesQueue world_after_failed_save =
      [\<lparr>fs_address = ''p1'', fs_name = ''Ann'', fs_diamonds = 7, fs_attempts = 0, fs_lastAttempt = 0\<rparr>]"
  "\<not> isProcessingQueue world_after_failed_save"
  "retryAttempts (saveMetrics world_after_failed_save) = 0"
  by (simp_all add: world_after_failed_save_def save_queue save_processing save_retryAttempts
      any_accepted_def down_accepted empty_world_simps)

lemma drain_invariant:
  "failedSavesQueue (drain_passes k world_after_failed_save) =
      [\<lparr>fs_address = ''p1'', fs_name = ''Ann'', fs_diamonds = 7, fs_attempts = 0,
        fs_lastAttempt = 10000 * int k\<rparr>]
   \<and> \<not> isProcessingQueue (drain_passes k world_after_failed_save)
   \<and> retryAttempts (saveMetrics (drain_passes k world_after_failed_save)) = k"
proof (induction k)
  case 0
  show ?case by (simp add: failed_world)
next
  case (Suc k)
  then have q: "failedSavesQueue (drain_passes k world_after_failed_save) =
      [\<lparr>fs_address = ''p1'', fs_name = ''Ann'', fs_diamonds = 7, fs_attempts = 0,
        fs_lastAttempt = 10000 * int k\<rparr>]"
    and np: "\<not> isProcessingQueue (drain_passes k world_after_failed_save)"
    and ra: "retryAttempts (saveMetrics (drain_passes k world_after_failed_save)) = k"
    by simp_all
  have due: "10000 * int k + 5000 \<le> 10000 * (int k + 1)" by simp
  note st = pass_step [OF q np due]
  show ?case using st(2) st(3) st(4) ra by (simp add: algebra_simps)
qed

text \<open>
  Claim C2 at a failing input. A write of 7 for player \<open>p1\<close> fails on every replica and
  leaves one retry-queue entry with \<open>attempts = 0\<close>. With the backend still unreachable,
  the first drain pass re-attempts the write once, removes the entry (which by then counts
  one attempt, not three) and schedules the next pass, because the failed re-attempt has
  itself queued a fresh entry with \<open>attempts = 0\<close> for the same payload. After any number
  \<open>k\<close> of passes the queue still holds such an entry and \<open>k\<close> re-attempts have been made:
  the payload is retried without bound, and no entry ever reaches the attempt budget.
\<close>

theorem retry_queue_drops_after_one_failure_and_requeues:
  "failedSavesQueue world_after_failed_save =
      [\<lparr>fs_address = ''p1'', fs_name = ''Ann'', fs_diamonds = 7, fs_attempts = 0, fs_lastAttempt = 0\<rparr>]
   \<and> fst (processFailedSavesQueue (drain_down 10000) world_after_failed_save) = (Inr (), True)
   \<and> failedSavesQueue (snd (processFailedSavesQueue (drain_down 10000) world_after_failed_save)) =
      [\<lparr>fs_address = ''p1'', fs_name = ''Ann'', fs_diamonds = 7, fs_attempts = 0,
        fs_lastAttempt = 10000\<rparr>]
   \<and> failedSavesQueue (drain_passes k world_after_failed_save) =
      [\<lparr>fs_address = ''p1'', fs_name = ''Ann'', fs_diamonds = 7, fs_attempts = 0,
        fs_lastAttempt = 10000 * int k\<rparr>]
   \<and> retryAttempts (saveMetrics (drain_passes k world_after_failed_save)) = k"
proof -
  have due: "(0::int) + 5000 \<le> 10000" by simp
  note st = pass_step [OF failed_world(1) failed_world(2) due]
  show ?thesis using st(1) st(2) drain_invariant [of k] failed_world(1) by simp
qed

section \<open>Properties of the batch writer\<close>

lemma numBatches_of_div: "numBatches_of positions = (length positions + 49) div 50"
proof -
  define n where "n = length positions"
  define q where "q = (n + 49) div 50"
  have a: "50 * q \<le> n + 49" unfolding q_def by simp
  have b: "n + 49 < 50 * q + 50" unfolding q_def
    using mod_less_divisor [of 50 "n + 49"] div_mult_mod_eq [of "n + 49" 50] by linarith
  from b have "n \<le> 50 * q" by simp
  then have "real n \<le> 50 * real q" by (metis of_nat_le_iff of_nat_mult of_nat_numeral)
  then have up: "real n / 50 \<le> of_int (int q)" by simp
  from a have "50 * q < n + 50" by simp
  then have "real (50 * q) < real (n + 50)" by (simp only: of_nat_less_iff)
  then have "50 * real q < real n + 50" by simp
  then have lo: "of_int (int q) - 1 < real n / 50" by simp
  have "\<lceil>real n / 50\<rceil> = int q"
    using lo up by (intro ceiling_unique) simp_all
  then show ?thesis by (simp add: q_def n_def numBatches_of_def BATCH_SIZE_def)
qed

lemma build_batch_keys:
  assumes "None \<notin> set positions" and "e \<le> length positions"
  shows "map fst (build_batch now positions s e) = [s..<e]"
proof -
  have "\<And>i. i \<in> set [s..<e] \<Longrightarrow>
      map fst (case positions ! i of
                 Some pos \<Rightarrow> [(i, \<lparr>gp_x = v_x pos, gp_y = v_y pos, gp_z = v_z pos, lastSaved = now\<rparr>)]
               | None \<Rightarrow> []) = [i]"
  proof -
    fix i assume "i \<in> set [s..<e]"
    with assms(2) have "i < length positions" by simp
    then have "positions ! i \<in> set positions" by simp
    with assms(1) obtain pos where "positions ! i = Some pos"
      by (cases "positions ! i") auto
    then show "map fst (case positions ! i of
                 Some pos \<Rightarrow> [(i, \<lparr>gp_x = v_x pos, gp_y = v_y pos, gp_z = v_z pos, lastSaved = now\<rparr>)]
               | None \<Rightarrow> []) = [i]" by simp
  qed
  then have "concat (map (\<lambda>i. map fst (case positions ! i of
                 Some pos \<Rightarrow> [(i, \<lparr>gp_x = v_x pos, gp_y = v_y pos, gp_z = v_z pos, lastSaved = now\<rparr>)]
               | None \<Rightarrow> [])) [s..<e]) = concat (map (\<lambda>i. [i]) [s..<e])"
    by (metis (no_types, lifting) map_eq_conv)
  also have "\<dots> = [s..<e]"
    by (induction "[s..<e]") (simp_all add: concat_map_singleton)
  finally show ?thesis
    by (simp add: build_batch_def map_concat comp_def)
qed




lemma save_batches_done:
  "\<not> b < N \<Longrightarrow> save_batches now patch positions N b w sent = (Inr (), w, sent)"
  using save_batches.simps [of now patch positions N b w sent] by simp

lemma save_batches_rejected:
  "b < N \<Longrightarrow> patch b = Rejected e \<Longrightarrow>
     save_batches now patch positions N b w sent = (Inl e, w, sent @ [planned now positions b])"
  using save_batches.simps [of now patch positions N b w sent]
  by (simp add: Let_def planned_def)

lemma save_batches_response:
  "b < N \<Longrightarrow> patch b = Response okay st tx \<Longrightarrow>
     save_batches now patch positions N b w sent =
       save_batches now patch positions N (b + 1)
         (if okay
          then w\<lparr>ghostPositionsData :=
                   ghostPositionsData w ++
                   map_of (build_batch now positions (b * BATCH_SIZE)
                             (min (b * BATCH_SIZE + BATCH_SIZE) (length positions)))\<rparr>
          else w)
         (sent @ [planned now positions b])"
  using save_batches.simps [of now patch positions N b w sent]
  by (simp add: Let_def planned_def)

lemma save_batches_all:
  assumes "\<forall>k. \<not> rejected (patch k)"
  shows "fst (save_batches now patch positions N b w sent) = Inr ()
     \<and> snd (snd (save_batches now patch positions N b w sent)) =
          sent @ map (planned now positions) [b..<N]"
proof (induction "N - b" arbitrary: b w sent)
  case 0
  then have "\<not> b < N" by simp
  then show ?case by (simp add: save_batches_done)
next
  case (Suc d)
  then have lt: "b < N" and d: "d = N - (b + 1)" by simp_all
  from assms have "\<not> rejected (patch b)" by blast
  then obtain okay st tx where r: "patch b = Response okay st tx"
    by (cases "patch b") (simp_all add: rejected_def)
  have up: "[b..<N] = b # [b + 1..<N]" using lt by (simp add: upt_rec)
  show ?case
    unfolding save_batches_response [where patch = patch and b = b, OF lt r] up
    using Suc.hyps(1) [OF d] by simp
qed

lemma save_batches_prefix:
  "\<exists>m. b \<le> m \<and> m \<le> max b N \<and> snd (snd (save_batches now patch positions N b w sent)) =
          sent @ map (planned now positions) [b..<m]"
proof (induction "N - b" arbitrary: b w sent)
  case 0
  then have "\<not> b < N" by simp
  then have "snd (snd (save_batches now patch positions N b w sent)) = sent"
    by (simp add: save_batches_done)
  then show ?case by (intro exI [of _ b]) simp
next
  case (Suc d)
  then have lt: "b < N" and d: "d = N - (b + 1)" by simp_all
  show ?case
  proof (cases "patch b")
    case (Rejected e)
    from lt show ?thesis
      unfolding save_batches_rejected [where patch = patch and b = b, OF lt Rejected]
      by (intro exI [of _ "b + 1"]) (simp add: upt_rec)
  next
    case (Response okay st tx)
    let ?w' = "if okay
          then w\<lparr>ghostPositionsData :=
                   ghostPositionsData w ++
                   map_of (build_batch now positions (b * BATCH_SIZE)
                             (min (b * BATCH_SIZE + BATCH_SIZE) (length positions)))\<rparr>
          else w"
    from Suc.hyps(1) [OF d, of ?w' "sent @ [planned now positions b]"]
    obtain m where m: "b + 1 \<le> m" "m \<le> max (b + 1) N"
      "snd (snd (save_batches now patch positions N (b + 1) ?w' (sent @ [planned now positions b]))) =
          (sent @ [planned now positions b]) @ map (planned now positions) [b + 1..<m]"
      by blast
    have up: "[b..<m] = b # [b + 1..<m]" using m(1) by (simp add: upt_rec)
    have "b \<le> m \<and> m \<le> max b N" using m(1) m(2) lt by simp
    then show ?thesis
      unfolding save_batches_response [where patch = patch and b = b, OF lt Response] m(3)
      by (intro exI [of _ m]) (simp add: up)
  qed
qed

lemma save_batches_isLeader:
  "isLeader (fst (snd (save_batches now patch positions N b w sent))) = isLeader w"
proof (induction "N - b" arbitrary: b w sent)
  case 0
  then have "\<not> b < N" by simp
  then show ?case by (simp add: save_batches_done)
next
  case (Suc d)
  then have lt: "b < N" and d: "d = N - (b + 1)" by simp_all
  show ?case
  proof (cases "patch b")
    case (Rejected e)
    show ?thesis unfolding save_batches_rejected [where patch = patch and b = b, OF lt Rejected] by simp
  next
    case (Response okay st tx)
    show ?thesis
      unfolding save_batches_response [where patch = patch and b = b, OF lt Response] Suc.hyps(1) [OF d] by simp
  qed
qed


lemma snd_saveGhostPositions:
  "snd (saveGhostPositions now patch positions w) =
     (if isLeader w
      then snd (snd (save_batches now patch positions (numBatches_of positions) 0 w []))
      else [])"
  by (simp add: saveGhostPositions_def split: prod.splits sum.splits)

lemma isLeader_saveGhostPositions:
  "isLeader (fst (saveGhostPositions now patch positions w)) = isLeader w"
proof -
  obtain r w' sent where sb:
    "save_batches now patch positions (numBatches_of positions) 0 w [] = (r, w', sent)"
    by (metis prod.collapse)
  have "isLeader (fst (snd (save_batches now patch positions (numBatches_of positions) 0 w [])))
          = isLeader w"
    by (rule save_batches_isLeader)
  with sb have "isLeader w' = isLeader w" by simp
  with sb show ?thesis
    by (cases r) (simp_all add: saveGhostPositions_def)
qed

lemma patch_keys_planned:
  assumes "None \<notin> set positions"
  shows "patch_keys (map (planned now positions) ks) = map (batch_range (length positions)) ks"
proof (induction ks)
  case Nil
  show ?case by simp
next
  case (Cons k ks)
  have "map fst (build_batch now positions (k * 50) (min (k * 50 + 50) (length positions)))
          = [k * 50..<min (k * 50 + 50) (length positions)]"
    using assms by (intro build_batch_keys) simp_all
  with Cons show ?case
    by (simp add: planned_def batch_range_def BATCH_SIZE_def)
qed

lemma length_patch_keys_planned:
  "length (patch_keys (map (planned now positions) ks)) = length ks"
  by (induction ks) (simp_all add: planned_def)

lemma concat_batch_ranges:
  "M \<le> (n + 49) div 50 \<Longrightarrow> concat (map (batch_range n) [0..<M]) = [0..<min (M * 50) n]"
proof (induction M)
  case 0
  show ?case by simp
next
  case (Suc M)
  have "50 * ((n + 49) div 50) \<le> n + 49" by simp
  moreover from Suc.prems have "50 * Suc M \<le> 50 * ((n + 49) div 50)" by simp
  ultimately have "50 * Suc M \<le> n + 49" by linarith
  then have lt: "M * 50 < n" by simp
  then have mn: "min (M * 50) n = M * 50" by simp
  from Suc have ih: "concat (map (batch_range n) [0..<M]) = [0..<M * 50]"
    by (simp add: mn)
  have le: "M * 50 \<le> min (M * 50 + 50) n" using lt by simp
  have app: "[0..<M * 50] @ [M * 50..<min (M * 50 + 50) n] = [0..<min (M * 50 + 50) n]"
    using upt_add_eq_append [of 0 "M * 50" "min (M * 50 + 50) n - M * 50"] le by simp
  have "concat (map (batch_range n) [0..<Suc M]) =
          concat (map (batch_range n) [0..<M]) @ batch_range n M"
    by simp
  also have "\<dots> = [0..<M * 50] @ [M * 50..<min (M * 50 + 50) n]"
    by (simp only: ih batch_range_def)
  also have "\<dots> = [0..<min (M * 50 + 50) n]"
    by (rule app)
  also have "min (M * 50 + 50) n = min (Suc M * 50) n"
    by simp
  finally show ?case .
qed

lemma concat_all_batch_ranges:
  "concat (map (batch_range n) [0..<(n + 49) div 50]) = [0..<n]"
proof -
  have "n \<le> ((n + 49) div 50) * 50"
    using mod_less_divisor [of 50 "n + 49"] div_mult_mod_eq [of "n + 49" 50] by linarith
  then have "min (((n + 49) div 50) * 50) n = n" by simp
  with concat_batch_ranges [of "(n + 49) div 50" n] show ?thesis by simp
qed

lemma length_batch_range: "length (batch_range n k) \<le> 50"
  by (simp add: batch_range_def)

text \<open>
  Claim C7, as amended. Let the process be leader and the collection of \<open>n\<close> positions
  have no empty slot. The requests \<open>saveGhostPositions\<close> issues are PATCH calls for the
  first \<open>m\<close> batches, for some \<open>m\<close> not above \<open>ceil (n / 50)\<close>, batch \<open>k\<close> carrying
  exactly the keys of the index range from \<open>50 k\<close> up to (excluding) \<open>min (50 k + 50) n\<close>.
  When no PATCH request is rejected (a response that is not ok does not stop the loop), it
  issues exactly \<open>ceil (n / 50)\<close> calls, whose ranges taken in order are the indices
  \<open>0, ..., n - 1\<close>, each once, and each range has at most 50 indices.
\<close>

theorem saveGhostPositions_batches:
  "isLeader w \<and> None \<notin> set positions \<longrightarrow>
     (\<exists>m. m \<le> nat \<lceil>real (length positions) / 50\<rceil>
          \<and> snd (saveGhostPositions now patch positions w) = map (planned now positions) [0..<m]
          \<and> patch_keys (snd (saveGhostPositions now patch positions w)) =
               map (batch_range (length positions)) [0..<m])
     \<and> ((\<forall>k. \<not> rejected (patch k)) \<longrightarrow>
          length (snd (saveGhostPositions now patch positions w)) =
            nat \<lceil>real (length positions) / 50\<rceil>
          \<and> patch_keys (snd (saveGhostPositions now patch positions w)) =
               map (batch_range (length positions)) [0..<nat \<lceil>real (length positions) / 50\<rceil>]
          \<and> concat (patch_keys (snd (saveGhostPositions now patch positions w))) =
               [0..<length positions]
          \<and> (\<forall>k. length (batch_range (length positions) k) \<le> 50))"
proof (intro impI, elim conjE)
  assume lead: "isLeader w" and full: "None \<notin> set positions"
  let ?N = "nat \<lceil>real (length positions) / 50\<rceil>"
  have N: "numBatches_of positions = ?N"
    by (simp add: numBatches_of_def BATCH_SIZE_def)
  have N': "?N = (length positions + 49) div 50"
    using numBatches_of_div [of positions] N by simp
  have sent: "snd (saveGhostPositions now patch positions w) =
      snd (snd (save_batches now patch positions ?N 0 w []))"
    using lead by (simp add: snd_saveGhostPositions N)
  from save_batches_prefix [of 0 ?N now patch positions w "[]"]
  obtain m where m: "m \<le> ?N"
    "snd (snd (save_batches now patch positions ?N 0 w [])) = map (planned now positions) [0..<m]"
    by auto
  have first: "\<exists>m. m \<le> ?N
          \<and> snd (saveGhostPositions now patch positions w) = map (planned now positions) [0..<m]
          \<and> patch_keys (snd (saveGhostPositions now patch positions w)) =
               map (batch_range (length positions)) [0..<m]"
    using m sent patch_keys_planned [OF full, of now "[0..<m]"] by (intro exI [of _ m]) simp
  have second: "(\<forall>k. \<not> rejected (patch k)) \<longrightarrow>
          length (snd (saveGhostPositions now patch positions w)) = ?N
          \<and> patch_keys (snd (saveGhostPositions now patch positions w)) =
               map (batch_range (length positions)) [0..<?N]
          \<and> concat (patch_keys (snd (saveGhostPositions now patch positions w))) =
               [0..<length positions]
          \<and> (\<forall>k. length (batch_range (length positions) k) \<le> 50)"
  proof
    assume ok: "\<forall>k. \<not> rejected (patch k)"
    from save_batches_all [OF ok, of now positions ?N 0 w "[]"]
    have all: "snd (saveGhostPositions now patch positions w) = map (planned now positions) [0..<?N]"
      using sent by simp
    have keys: "patch_keys (snd (saveGhostPositions now patch positions w)) =
               map (batch_range (length positions)) [0..<?N]"
      unfolding all by (rule patch_keys_planned [OF full])
    have cover: "concat (patch_keys (snd (saveGhostPositions now patch positions w))) =
               [0..<length positions]"
      unfolding keys N' by (rule concat_all_batch_ranges)
    from all keys cover length_batch_range
    show "length (snd (saveGhostPositions now patch positions w)) = ?N
          \<and> patch_keys (snd (saveGhostPositions now patch positions w)) =
               map (batch_range (length positions)) [0..<?N]
          \<and> concat (patch_keys (snd (saveGhostPositions now patch positions w))) =
               [0..<length positions]
          \<and> (\<forall>k. length (batch_range (length positions) k) \<le> 50)"
      by simp
  qed
  from first second show "(\<exists>m. m \<le> ?N
          \<and> snd (saveGhostPositions now patch positions w) = map (planned now positions) [0..<m]
          \<and> patch_keys (snd (saveGhostPositions now patch positions w)) =
               map (batch_range (length positions)) [0..<m])
     \<and> ((\<forall>k. \<not> rejected (patch k)) \<longrightarrow>
          length (snd (saveGhostPositions now patch positions w)) = ?N
          \<and> patch_keys (snd (saveGhostPositions now patch positions w)) =
               map (batch_range (length positions)) [0..<?N]
          \<and> concat (patch_keys (snd (saveGhostPositions now patch positions w))) =
               [0..<length positions]
          \<and> (\<forall>k. length (batch_range (length positions) k) \<le> 50))"
    by blast
qed

lemma positions_120_facts: "length positions_120 = 120" "None \<notin> set positions_120"
  "numBatches_of positions_120 = 3" "nat \<lceil>real (length positions_120) / 50\<rceil> = 3"
proof -
  show l: "length positions_120 = 120" by (simp add: positions_120_def)
  show "None \<notin> set positions_120" by (simp add: positions_120_def)
  show n: "numBatches_of positions_120 = 3" by (simp add: numBatches_of_div l)
  then show "nat \<lceil>real (length positions_120) / 50\<rceil> = 3"
    by (simp add: numBatches_of_def BATCH_SIZE_def)
qed

lemma leader_world_isLeader: "isLeader leader_world"
  by (simp add: leader_world_def)

text \<open>
  Witness for C7: 120 positions and a backend that accepts every PATCH give three calls,
  covering the indices 0 to 49, 50 to 99 and 100 to 119.
\<close>

theorem saveGhostPositions_batches_witness:
  "isLeader leader_world \<and> length positions_120 = 120
   \<and> length (snd (saveGhostPositions 1000 (\<lambda>k. Response True ''200'' ''OK'') positions_120
                   leader_world)) = 3
   \<and> patch_keys (snd (saveGhostPositions 1000 (\<lambda>k. Response True ''200'' ''OK'') positions_120
                        leader_world))
       = [[0..<50], [50..<100], [100..<120]]"
proof -
  have ok: "\<forall>k. \<not> rejected ((\<lambda>k. Response True ''200'' ''OK'') k)"
    by (simp add: rejected_def)
  note t = saveGhostPositions_batches [of leader_world positions_120 1000 "\<lambda>k. Response True ''200'' ''OK''"]
  from t leader_world_isLeader positions_120_facts(2) ok
  have "length (snd (saveGhostPositions 1000 (\<lambda>k. Response True ''200'' ''OK'') positions_120
                   leader_world)) = nat \<lceil>real (length positions_120) / 50\<rceil>"
    and "patch_keys (snd (saveGhostPositions 1000 (\<lambda>k. Response True ''200'' ''OK'') positions_120
                        leader_world))
       = map (batch_range (length positions_120)) [0..<nat \<lceil>real (length positions_120) / 50\<rceil>]"
    by blast+
  then have "length (snd (saveGhostPositions 1000 (\<lambda>k. Response True ''200'' ''OK'') positions_120
                   leader_world)) = 3"
    and "patch_keys (snd (saveGhostPositions 1000 (\<lambda>k. Response True ''200'' ''OK'') positions_120
                        leader_world))
       = map (batch_range 120) [0..<3]"
  proof -
    have c: "nat \<lceil>real (120::nat) / 50\<rceil> = 3"
      using positions_120_facts(4) by (simp only: positions_120_facts(1))
    assume "length (snd (saveGhostPositions 1000 (\<lambda>k. Response True ''200'' ''OK'') positions_120
                   leader_world)) = nat \<lceil>real (length positions_120) / 50\<rceil>"
    then show "length (snd (saveGhostPositions 1000 (\<lambda>k. Response True ''200'' ''OK'') positions_120
                   leader_world)) = 3"
      by (simp only: positions_120_facts(1) c)
    assume "patch_keys (snd (saveGhostPositions 1000 (\<lambda>k. Response True ''200'' ''OK'') positions_120
                        leader_world))
       = map (batch_range (length positions_120)) [0..<nat \<lceil>real (length positions_120) / 50\<rceil>]"
    then show "patch_keys (snd (saveGhostPositions 1000 (\<lambda>k. Response True ''200'' ''OK'') positions_120
                        leader_world))
       = map (batch_range 120) [0..<3]"
      by (simp only: positions_120_facts(1) c)
  qed
  moreover have "map (batch_range 120) [0..<3] = [[0..<50], [50..<100], [100..<120]]"
  proof -
    have "[0..<3::nat] = [0, 1, 2]"
      by (simp add: numeral_3_eq_3)
    then show ?thesis
      by (simp add: batch_range_def del: upt_rec_numeral)
  qed
  ultimately show ?thesis
    using leader_world_isLeader positions_120_facts(1) by simp
qed

text \<open>
  Counterexample to claim C7 as stated: the leader is given 120 positions, for which
  \<open>ceil (120 / 50) = 3\<close>, and the first PATCH is rejected (the fetch throws). The exception
  leaves the loop, and one call has been issued, not three.
\<close>

theorem saveGhostPositions_stops_at_rejected_patch:
  "isLeader leader_world \<and> length positions_120 = 120
   \<and> nat \<lceil>real (length positions_120) / 50\<rceil> = 3
   \<and> length (snd (saveGhostPositions 1000 (\<lambda>k. Rejected (JsError ''Failed to fetch''))
                   positions_120 leader_world)) = 1"
proof -
  have "save_batches 1000 (\<lambda>k. Rejected (JsError ''Failed to fetch'')) positions_120 3 0
          leader_world [] =
        (Inl (JsError ''Failed to fetch''), leader_world, [] @ [planned 1000 positions_120 0])"
    by (rule save_batches_rejected) simp_all
  then show ?thesis
    by (simp add: snd_saveGhostPositions leader_world_isLeader positions_120_facts)
qed

section \<open>Properties of the leadership lease\<close>






lemma isLeader_becomeLeader: "isLeader w \<Longrightarrow> isLeader (snd (becomeLeader lnet w))"
  by (simp add: becomeLeader_def take_over_def Let_def
      split: sum.splits option.splits http_result.splits)

text \<open>
  Claim C6. A leader stays leader through the renewal step whatever the renewal PUT does.
  In particular, when the renewal is due and the PUT is not accepted (rejected fetch or a
  response that is not ok), the step has sent the PUT, the stored token is unchanged and
  \<open>isLeader\<close> is still true. The other operations of the module that run on a leader
  (\<open>becomeLeader\<close>, \<open>saveGhostPositions\<close>) do not reset the flag either: the module has no
  self-demotion.
\<close>

theorem leader_never_demotes_itself:
  "(isLeader w \<longrightarrow> isLeader (snd (checkAndRenewLeadership rn w)))
   \<and> (isLeader w \<and> renew_now rn - lastLeaderCheckTime w > 5000 \<and> \<not> accepted (renew_put rn) \<longrightarrow>
        fst (checkAndRenewLeadership rn w) =
          [PUT_leader \<lparr>leaderId = renew_leaderId rn, timestamp = renew_now rn\<rparr>]
        \<and> isLeader (snd (checkAndRenewLeadership rn w))
        \<and> ghostSaveLeader (snd (checkAndRenewLeadership rn w)) = ghostSaveLeader w)
   \<and> (isLeader w \<longrightarrow> isLeader (snd (becomeLeader lnet w)))
   \<and> (isLeader w \<longrightarrow> isLeader (fst (saveGhostPositions now patch positions w)))"
  by (auto simp add: checkAndRenewLeadership_def accepted_def Let_def isLeader_becomeLeader
      isLeader_saveGhostPositions split: http_result.splits)

text \<open>
  Witness for C6: the leader's renewal at 6000 ms, 6000 ms after its last check, with the
  fetch rejected and with a 503 response.
\<close>

theorem leader_never_demotes_itself_witness:
  "isLeader leader_world
   \<and> checkAndRenewLeadership
        \<lparr>renew_now = 6000, renew_leaderId = 6000,
         renew_put = Rejected (JsError ''Failed to fetch'')\<rparr> leader_world
      = ([PUT_leader \<lparr>leaderId = 6000, timestamp = 6000\<rparr>],
         leader_world\<lparr>lastLeaderCheckTime := 6000\<rparr>)
   \<and> isLeader (snd (checkAndRenewLeadership
        \<lparr>renew_now = 6000, renew_leaderId = 6000,
         renew_put = Rejected (JsError ''Failed to fetch'')\<rparr> leader_world))
   \<and> isLeader (snd (checkAndRenewLeadership
        \<lparr>renew_now = 6000, renew_leaderId = 6000,
         renew_put = Response False ''503'' ''Service Unavailable''\<rparr> leader_world))"
proof -
  let ?rej = "\<lparr>renew_now = 6000, renew_leaderId = 6000,
         renew_put = Rejected (JsError ''Failed to fetch'')\<rparr>"
  let ?bad = "\<lparr>renew_now = 6000, renew_leaderId = 6000,
         renew_put = Response False ''503'' ''Service Unavailable''\<rparr>"
  have l: "isLeader leader_world" by (rule leader_world_isLeader)
  have pre: "isLeader leader_world \<and> renew_now ?rej - lastLeaderCheckTime leader_world > 5000
      \<and> \<not> accepted (renew_put ?rej)"
    by (simp add: leader_world_def accepted_def)
  from leader_never_demotes_itself [of leader_world ?rej] pre
  have 1: "isLeader (snd (checkAndRenewLeadership ?rej leader_world))" by blast
  from leader_never_demotes_itself [of leader_world ?bad] l
  have 2: "isLeader (snd (checkAndRenewLeadership ?bad leader_world))" by blast
  have 3: "checkAndRenewLeadership ?rej leader_world
      = ([PUT_leader \<lparr>leaderId = 6000, timestamp = 6000\<rparr>],
         leader_world\<lparr>lastLeaderCheckTime := 6000\<rparr>)"
    by (simp add: checkAndRenewLeadership_def leader_world_def Let_def)
  from l 1 2 3 show ?thesis by blast
qed

section \<open>Properties of the diamond documents\<close>






end
